theory Spec2Isabelle
  imports Complex_Main "HOL-Library.Sublist" "HOL-Library.Log_Nat"
begin

section \<open>JavaScript strings\<close>

text \<open>
  A JavaScript string is a sequence of UTF-16 code units. A code unit is modelled by its
  number, so that the escapes of JSON (a backslash, \<^verbatim>\<open>u\<close> and four hexadecimal
  digits) and the white space beyond Latin-1 have a value of their own. \<open>lit\<close> turns an
  ASCII literal of the source into code units.
\<close>

type_synonym jsstring = "nat list"

definition lit :: "string \<Rightarrow> jsstring" where
  "lit s = map of_char s"

text \<open>
  \<^verbatim>\<open>String.prototype.trim\<close> and the class \<^verbatim>\<open>\s\<close> of a regular expression use the same set:
  ECMAScript's WhiteSpace and LineTerminator code points.
\<close>

definition isWhiteSpace :: "nat \<Rightarrow> bool" where
  "isWhiteSpace c \<longleftrightarrow>
     c = 0x09 \<or> c = 0x0A \<or> c = 0x0B \<or> c = 0x0C \<or> c = 0x0D \<or> c = 0x20 \<or> c = 0xA0 \<or>
     c = 0x1680 \<or> (0x2000 \<le> c \<and> c \<le> 0x200A) \<or> c = 0x2028 \<or> c = 0x2029 \<or>
     c = 0x202F \<or> c = 0x205F \<or> c = 0x3000 \<or> c = 0xFEFF"

definition trim :: "jsstring \<Rightarrow> jsstring" where
  "trim s = rev (dropWhile isWhiteSpace (rev (dropWhile isWhiteSpace s)))"

text \<open>
  \<^verbatim>\<open>.replace(/^```json\s*/, '')\<close>: the pattern is anchored at the start and has no \<^verbatim>\<open>g\<close>
  flag, so it removes the opening fence and the longest run of white space after it, once,
  and only when the text starts with the fence.
\<close>

definition opening_fence :: jsstring where
  "opening_fence = [0x60, 0x60, 0x60] @ lit ''json''"

definition closing_fence :: jsstring where
  "closing_fence = [0x60, 0x60, 0x60]"

definition replace_opening_fence :: "jsstring \<Rightarrow> jsstring" where
  "replace_opening_fence s =
     (if prefix opening_fence s then dropWhile isWhiteSpace (drop (length opening_fence) s)
      else s)"

text \<open>
  \<^verbatim>\<open>.replace(/\s*```$/, '')\<close>: without the \<^verbatim>\<open>m\<close> flag \<^verbatim>\<open>$\<close> is the end of the text, so a
  match ends with the last three code units, and the leftmost match starts where the run
  of white space before them starts.
\<close>

definition replace_closing_fence :: "jsstring \<Rightarrow> jsstring" where
  "replace_closing_fence s =
     (if suffix closing_fence s
      then rev (dropWhile isWhiteSpace (drop (length closing_fence) (rev s)))
      else s)"

definition cleanedText :: "jsstring \<Rightarrow> jsstring" where
  "cleanedText generatedText =
     replace_closing_fence (replace_opening_fence (trim generatedText))"

section \<open>Numbers\<close>

text \<open>
  A JavaScript number is an IEEE double: a rational, one of the two infinities, or NaN.
  \<open>Finite\<close> holds the exact value of a double; \<open>-0\<close> is \<open>0\<close>, which nothing the
  handlers do tells apart (both are falsy, and both are written \<^verbatim>\<open>0\<close>).
\<close>

datatype jsnum = Finite rat | PosInfinity | NegInfinity | NaN

definition isNaN :: "jsnum \<Rightarrow> bool" where
  "isNaN x \<longleftrightarrow> x = NaN"

definition isDigit :: "nat \<Rightarrow> bool" where
  "isDigit c \<longleftrightarrow> 0x30 \<le> c \<and> c \<le> 0x39"

definition digits_val :: "jsstring \<Rightarrow> nat" where
  "digits_val ds = foldl (\<lambda>a d. 10 * a + (d - 0x30)) 0 ds"

subsection \<open>The Number value of a decimal\<close>

text \<open>
  The number a literal denotes is rounded to the nearest double, ties to the even
  significand. For a fraction \<open>n / d\<close> above zero, \<open>binade\<close> is the \<open>e\<close> with
  \<open>2 ^ e \<le> n / d < 2 ^ (e + 1)\<close>; a double of that size is a multiple of \<open>2 ^ (e - 52)\<close>,
  and below \<open>2 ^ - 1022\<close> of \<open>2 ^ - 1074\<close>. A rounded value of \<open>2 ^ 1024\<close> or more is an
  infinity, and one below half of \<open>2 ^ - 1074\<close> is zero.
\<close>

definition round_half_even :: "nat \<Rightarrow> nat \<Rightarrow> nat" where
  "round_half_even n d =
     (let q = n div d; r = n mod d
      in if 2 * r < d then q else if d < 2 * r then q + 1 else if even q then q else q + 1)"

definition binade :: "nat \<Rightarrow> nat \<Rightarrow> int" where
  "binade n d =
     (let k = int (floorlog 2 n) - int (floorlog 2 d)
      in if (if 0 \<le> k then 2 ^ nat k * d \<le> n else d \<le> 2 ^ nat (- k) * n) then k else k - 1)"

definition pow2 :: "int \<Rightarrow> rat" where
  "pow2 e = (if 0 \<le> e then 2 ^ nat e else 1 / 2 ^ nat (- e))"

text \<open>\<open>None\<close> is the overflow.\<close>

definition nearest_double :: "nat \<Rightarrow> nat \<Rightarrow> rat option" where
  "nearest_double n d =
     (if n = 0 then Some 0
      else
        (let e = max (binade n d) (- 1022);
             m = (if e \<le> 52 then round_half_even (n * 2 ^ nat (52 - e)) d
                  else round_half_even n (d * 2 ^ nat (e - 52)))
         in if 2 ^ 1024 \<le> of_nat m * pow2 (e - 52) then None
            else Some (of_nat m * pow2 (e - 52))))"

definition Number_value :: "bool \<Rightarrow> nat \<Rightarrow> nat \<Rightarrow> jsnum" where
  "Number_value negative n d =
     (case nearest_double n d of
        None \<Rightarrow> if negative then NegInfinity else PosInfinity
      | Some r \<Rightarrow> Finite (if negative then - r else r))"

text \<open>The Number value of \<open>m\<close> times ten to the \<open>k\<close>, with its sign.\<close>

definition decimal_value :: "bool \<Rightarrow> nat \<Rightarrow> int \<Rightarrow> jsnum" where
  "decimal_value negative m k =
     (if 0 \<le> k then Number_value negative (m * 10 ^ nat k) 1
      else Number_value negative m (10 ^ nat (- k)))"

definition hexval :: "nat \<Rightarrow> nat option" where
  "hexval c =
     (if 0x30 \<le> c \<and> c \<le> 0x39 then Some (c - 0x30)
      else if 0x41 \<le> c \<and> c \<le> 0x46 then Some (c - 0x37)
      else if 0x61 \<le> c \<and> c \<le> 0x66 then Some (c - 0x57)
      else None)"

text \<open>An optional sign, and an exponent part \<^verbatim>\<open>[eE][+-]?[0-9]+\<close>, as JSON and
  JavaScript's numeric strings both have them.\<close>

definition lex_sign :: "jsstring \<Rightarrow> int \<times> jsstring" where
  "lex_sign s =
     (case s of
        [] \<Rightarrow> (1, s)
      | c # r \<Rightarrow> if c = 0x2B then (1, r) else if c = 0x2D then (- 1, r) else (1, s))"

definition lex_exponent :: "jsstring \<Rightarrow> (int \<times> jsstring) option" where
  "lex_exponent s =
     (case s of
        [] \<Rightarrow> Some (0, s)
      | c # r \<Rightarrow>
          if c = 0x65 \<or> c = 0x45 then
            (case lex_sign r of
               (sg, r1) \<Rightarrow>
                 if takeWhile isDigit r1 = [] then None
                 else Some (sg * int (digits_val (takeWhile isDigit r1)), dropWhile isDigit r1))
          else Some (0, s))"

subsection \<open>\<^verbatim>\<open>Number(string)\<close>\<close>

text \<open>
  ECMAScript's StringToNumber: the text is trimmed; the empty text is \<open>0\<close>; a hexadecimal,
  octal or binary literal has no sign; a decimal literal has an optional sign, digits on
  at least one side of the point and an optional exponent; \<^verbatim>\<open>Infinity\<close> may be signed;
  anything else is NaN. A literal is rounded to its Number value.
\<close>

definition radix_literal :: "nat \<Rightarrow> jsstring \<Rightarrow> jsnum" where
  "radix_literal b ds =
     (if ds \<noteq> [] \<and> list_all (\<lambda>c. case hexval c of None \<Rightarrow> False | Some v \<Rightarrow> v < b) ds
      then Number_value False
             (foldl (\<lambda>a d. b * a + (case hexval d of None \<Rightarrow> 0 | Some v \<Rightarrow> v)) 0 ds) 1
      else NaN)"

definition StrUnsignedDecimalLiteral :: "jsstring \<Rightarrow> (nat \<times> int) option" where
  "StrUnsignedDecimalLiteral u =
     (let ip = takeWhile isDigit u;
          r = dropWhile isDigit u;
          dot = (case r of [] \<Rightarrow> False | c # _ \<Rightarrow> c = 0x2E);
          fp = (if dot then takeWhile isDigit (tl r) else []);
          r2 = (if dot then dropWhile isDigit (tl r) else r)
      in if ip = [] \<and> fp = [] then None
         else
           (case lex_exponent r2 of
              None \<Rightarrow> None
            | Some (ex, rest) \<Rightarrow>
                if rest = []
                then Some (digits_val (ip @ fp), ex - int (length fp))
                else None))"

definition StringToNumber :: "jsstring \<Rightarrow> jsnum" where
  "StringToNumber s =
     (let t = trim s
      in if t = [] then Finite 0
         else if prefix (lit ''0x'') t \<or> prefix (lit ''0X'') t then radix_literal 16 (drop 2 t)
         else if prefix (lit ''0o'') t \<or> prefix (lit ''0O'') t then radix_literal 8 (drop 2 t)
         else if prefix (lit ''0b'') t \<or> prefix (lit ''0B'') t then radix_literal 2 (drop 2 t)
         else
           (case lex_sign t of
              (sg, u) \<Rightarrow>
                if u = lit ''Infinity'' then (if sg < 0 then NegInfinity else PosInfinity)
                else
                  (case StrUnsignedDecimalLiteral u of
                     None \<Rightarrow> NaN
                   | Some (m, k) \<Rightarrow> decimal_value (sg < 0) m k)))"

section \<open>\<^verbatim>\<open>JSON.parse\<close>\<close>

text \<open>
  \<^verbatim>\<open>JSON.parse\<close> is the platform's; the handlers call it with one argument. It is
  modelled as a lexer into tokens followed by a pushdown automaton over the tokens, both
  total. \<open>None\<close> is the SyntaxError it throws.
\<close>

datatype json =
  JNull | JBool bool | JNumber jsnum | JString jsstring
  | JArray "json list" | JObject "(jsstring \<times> json) list"

datatype token =
  LBrace | RBrace | LBracket | RBracket | Colon | Comma
  | TString jsstring | TNumber jsnum | TTrue | TFalse | TNull

definition isJSONWhiteSpace :: "nat \<Rightarrow> bool" where
  "isJSONWhiteSpace c \<longleftrightarrow> c = 0x09 \<or> c = 0x0A \<or> c = 0x0D \<or> c = 0x20"

fun hex4 :: "jsstring \<Rightarrow> nat option" where
  "hex4 (a # b # c # d # _) =
     (case (hexval a, hexval b, hexval c, hexval d) of
        (Some x, Some y, Some z, Some w) \<Rightarrow> Some (((x * 16 + y) * 16 + z) * 16 + w)
      | _ \<Rightarrow> None)"
| "hex4 _ = None"

definition unescape :: "nat \<Rightarrow> nat option" where
  "unescape e =
     (if e = 0x22 then Some 0x22 else if e = 0x5C then Some 0x5C
      else if e = 0x2F then Some 0x2F else if e = 0x62 then Some 0x08
      else if e = 0x66 then Some 0x0C else if e = 0x6E then Some 0x0A
      else if e = 0x72 then Some 0x0D else if e = 0x74 then Some 0x09
      else None)"

text \<open>The text after an opening quote: the string's value and what follows the closing
  quote. A control character, a lone backslash or an unknown escape is an error.\<close>

fun lex_string :: "jsstring \<Rightarrow> (jsstring \<times> jsstring) option" where
  "lex_string [] = None"
| "lex_string (c # cs) =
     (if c = 0x22 then Some ([], cs)
      else if c = 0x5C then
        (case cs of
           [] \<Rightarrow> None
         | e # r \<Rightarrow>
             if e = 0x75 then
               (case hex4 r of
                  None \<Rightarrow> None
                | Some u \<Rightarrow> map_option (\<lambda>(s, rest). (u # s, rest)) (lex_string (drop 4 r)))
             else
               (case unescape e of
                  None \<Rightarrow> None
                | Some x \<Rightarrow> map_option (\<lambda>(s, rest). (x # s, rest)) (lex_string r)))
      else if c < 0x20 then None
      else map_option (\<lambda>(s, rest). (c # s, rest)) (lex_string cs))"

definition lex_fraction :: "jsstring \<Rightarrow> (jsstring \<times> jsstring) option" where
  "lex_fraction s =
     (case s of
        [] \<Rightarrow> Some ([], s)
      | c # r \<Rightarrow>
          if c = 0x2E then
            (if takeWhile isDigit r = [] then None
             else Some (takeWhile isDigit r, dropWhile isDigit r))
          else Some ([], s))"

text \<open>A JSON number: \<^verbatim>\<open>-?(0|[1-9][0-9]*)(\.[0-9]+)?([eE][+-]?[0-9]+)?\<close>, with the
  Number value of its digits and exponent.\<close>

definition lex_number :: "jsstring \<Rightarrow> (jsnum \<times> jsstring) option" where
  "lex_number s =
     (let neg = (case s of [] \<Rightarrow> False | c # _ \<Rightarrow> c = 0x2D);
          s1 = (if neg then tl s else s);
          ip = takeWhile isDigit s1
      in if ip = [] \<or> (hd ip = 0x30 \<and> 1 < length ip) then None
         else
           (case lex_fraction (dropWhile isDigit s1) of
              None \<Rightarrow> None
            | Some (fp, s3) \<Rightarrow>
                (case lex_exponent s3 of
                   None \<Rightarrow> None
                 | Some (ex, s4) \<Rightarrow>
                     Some (decimal_value neg (digits_val (ip @ fp)) (ex - int (length fp)),
                           s4))))"

subsection \<open>What a token leaves is a proper suffix of the text\<close>

lemma suffix_drop_trans: "suffix r (drop n xs) \<Longrightarrow> suffix r xs"
  by (meson suffix_drop suffix_order.trans)

lemma lex_string_length: "lex_string s = Some (v, rest) \<Longrightarrow> length rest < length s"
proof (induction s arbitrary: v rest rule: lex_string.induct)
  case 1
  then show ?case by simp
next
  case (2 c cs)
  then show ?case
    by (fastforce split: if_splits list.splits option.splits)
qed

lemma lex_string_suffix: "lex_string s = Some (v, rest) \<Longrightarrow> suffix rest s"
proof (induction s arbitrary: v rest rule: lex_string.induct)
  case 1
  then show ?case by simp
next
  case (2 c cs)
  show ?case
  proof (cases "c = 0x22")
    case True
    with 2 show ?thesis by (simp add: suffix_ConsI)
  next
    case q: False
    show ?thesis
    proof (cases "c = 0x5C")
      case False
      with q 2 show ?thesis
        by (auto split: if_splits intro: suffix_ConsI)
    next
      case True
      with "2.prems" obtain e r where cs: "cs = e # r" by (cases cs) auto
      show ?thesis
      proof (cases "e = 0x75")
        case u: True
        with "2.prems" True cs obtain x a where h: "hex4 r = Some x"
          and l: "lex_string (drop 4 r) = Some (a, rest)"
          by (auto split: option.splits)
        have "suffix rest (drop 4 r)"
          using "2.IH"(1)[OF q True cs u h l] .
        then show ?thesis using cs by (auto intro: suffix_ConsI suffix_drop_trans)
      next
        case u: False
        with "2.prems" True cs obtain x a where h: "unescape e = Some x"
          and l: "lex_string r = Some (a, rest)"
          by (auto split: option.splits)
        have "suffix rest r"
          using "2.IH"(2)[OF q True cs u h l] .
        then show ?thesis using cs by (auto intro: suffix_ConsI)
      qed
    qed
  qed
qed

lemma lex_fraction_suffix: "lex_fraction s = Some (v, rest) \<Longrightarrow> suffix rest s"
  by (auto simp: lex_fraction_def suffix_dropWhile suffix_ConsI split: list.splits if_splits)

lemma lex_sign_suffix: "lex_sign s = (v, rest) \<Longrightarrow> suffix rest s"
  by (auto simp: lex_sign_def suffix_ConsI split: list.splits if_splits)

lemma lex_exponent_suffix:
  assumes "lex_exponent s = Some (v, rest)"
  shows "suffix rest s"
proof (cases s)
  case Nil
  with assms show ?thesis by (simp add: lex_exponent_def)
next
  case (Cons c r)
  show ?thesis
  proof (cases "c = 0x65 \<or> c = 0x45")
    case False
    with assms Cons show ?thesis by (simp add: lex_exponent_def)
  next
    case True
    obtain sg r1 where sg: "lex_sign r = (sg, r1)" by (cases "lex_sign r")
    with assms Cons True have "rest = dropWhile isDigit r1"
      by (auto simp: lex_exponent_def split: if_splits)
    then have "suffix rest r1" by (simp add: suffix_dropWhile)
    then have "suffix rest r" using lex_sign_suffix[OF sg] by (rule suffix_order.trans)
    then show ?thesis using Cons by (simp add: suffix_ConsI)
  qed
qed

lemma lex_number_suffix:
  assumes "lex_number s = Some (v, rest)"
  shows "suffix rest s \<and> length rest < length s"
proof -
  define neg where "neg = (case s of [] \<Rightarrow> False | c # _ \<Rightarrow> c = 0x2D)"
  define s1 where "s1 = (if neg then tl s else s)"
  from assms obtain fp s3 ex where
    ne: "takeWhile isDigit s1 \<noteq> []" and
    f: "lex_fraction (dropWhile isDigit s1) = Some (fp, s3)" and
    e: "lex_exponent s3 = Some (ex, rest)"
    unfolding lex_number_def Let_def neg_def[symmetric] s1_def[symmetric]
    by (auto split: if_splits option.splits)
  from ne obtain d ds where s1: "s1 = d # ds" and d: "isDigit d"
    by (cases s1) (auto split: if_splits)
  have a: "suffix s1 s" by (simp add: s1_def suffix_tl)
  have b: "dropWhile isDigit s1 = dropWhile isDigit ds" using s1 d by simp
  have c: "suffix rest (dropWhile isDigit ds)"
    using lex_fraction_suffix[OF f] lex_exponent_suffix[OF e] b
    by (metis suffix_order.trans)
  have "suffix rest ds" using c suffix_dropWhile suffix_order.trans by blast
  then have "suffix rest s1 \<and> length rest < length s1"
    using s1 by (simp add: suffix_ConsI suffix_length_le le_imp_less_Suc)
  then show ?thesis
    using a suffix_length_le[OF a] by (auto intro: suffix_order.trans)
qed

subsection \<open>The lexer\<close>

function tokenize :: "jsstring \<Rightarrow> token list option" where
  "tokenize [] = Some []"
| "tokenize (c # cs) =
     (if isJSONWhiteSpace c then tokenize cs
      else if c = 0x7B then map_option (Cons LBrace) (tokenize cs)
      else if c = 0x7D then map_option (Cons RBrace) (tokenize cs)
      else if c = 0x5B then map_option (Cons LBracket) (tokenize cs)
      else if c = 0x5D then map_option (Cons RBracket) (tokenize cs)
      else if c = 0x3A then map_option (Cons Colon) (tokenize cs)
      else if c = 0x2C then map_option (Cons Comma) (tokenize cs)
      else if c = 0x22 then
        (case lex_string cs of
           None \<Rightarrow> None
         | Some (s, rest) \<Rightarrow> map_option (Cons (TString s)) (tokenize rest))
      else if c = 0x2D \<or> isDigit c then
        (case lex_number (c # cs) of
           None \<Rightarrow> None
         | Some (x, rest) \<Rightarrow> map_option (Cons (TNumber x)) (tokenize rest))
      else if prefix (lit ''true'') (c # cs) then map_option (Cons TTrue) (tokenize (drop 3 cs))
      else if prefix (lit ''false'') (c # cs) then map_option (Cons TFalse) (tokenize (drop 4 cs))
      else if prefix (lit ''null'') (c # cs) then map_option (Cons TNull) (tokenize (drop 3 cs))
      else None)"
  by pat_completeness auto
termination
proof (relation "measure length", goal_cases)
  case (9 c cs x2 x y)
  then show ?case using lex_string_length[of cs x y] by simp
next
  case (10 c cs x2 x y)
  then show ?case using lex_number_suffix[of "c # cs" x y] by simp
qed simp_all

subsection \<open>The parser\<close>

text \<open>
  \<^verbatim>\<open>JSON.parse\<close> builds an object by defining one property per member of the text, in
  order: a key that is already there keeps its place and takes the new value. The keys
  of an object are enumerated, and written by \<^verbatim>\<open>JSON.stringify\<close>, with the array indices
  first, in ascending order, and the other keys after them in the order of their
  creation; a member list is kept in that order.
\<close>

definition array_index :: "jsstring \<Rightarrow> nat option" where
  "array_index k =
     (if k \<noteq> [] \<and> list_all isDigit k \<and> (hd k \<noteq> 0x30 \<or> length k = 1) \<and>
         digits_val k < 2 ^ 32 - 1
      then Some (digits_val k) else None)"

definition key_before :: "jsstring \<Rightarrow> jsstring \<Rightarrow> bool" where
  "key_before k k' =
     (case array_index k of
        None \<Rightarrow> False
      | Some i \<Rightarrow> (case array_index k' of None \<Rightarrow> True | Some j \<Rightarrow> i < j))"

fun put_member :: "(jsstring \<times> json) list \<Rightarrow> jsstring \<Rightarrow> json \<Rightarrow> (jsstring \<times> json) list" where
  "put_member [] k v = [(k, v)]"
| "put_member ((k', v') # ms) k v =
     (if k' = k then (k, v) # ms
      else if key_before k k' then (k, v) # (k', v') # ms
      else (k', v') # put_member ms k v)"

text \<open>
  The automaton keeps a stack of the arrays and objects that are still open: an array
  with its elements so far, last first, and an object with its members so far and the
  key whose value is being read.
\<close>

datatype frame = InArray "json list" | InObject "(jsstring \<times> json) list" jsstring

datatype pstate =
  ExpectValue "frame list"
  | ArrayOpen "frame list"
  | AfterElement "json list" "frame list"
  | ObjectOpen "frame list"
  | ExpectKey "(jsstring \<times> json) list" "frame list"
  | ExpectColon "(jsstring \<times> json) list" jsstring "frame list"
  | AfterMember "(jsstring \<times> json) list" "frame list"
  | Done json

fun deliver :: "json \<Rightarrow> frame list \<Rightarrow> pstate" where
  "deliver v [] = Done v"
| "deliver v (InArray es # st) = AfterElement (v # es) st"
| "deliver v (InObject ms k # st) = AfterMember (put_member ms k v) st"

fun start_value :: "token \<Rightarrow> frame list \<Rightarrow> pstate option" where
  "start_value (TString s) st = Some (deliver (JString s) st)"
| "start_value (TNumber x) st = Some (deliver (JNumber x) st)"
| "start_value TTrue st = Some (deliver (JBool True) st)"
| "start_value TFalse st = Some (deliver (JBool False) st)"
| "start_value TNull st = Some (deliver JNull st)"
| "start_value LBracket st = Some (ArrayOpen st)"
| "start_value LBrace st = Some (ObjectOpen st)"
| "start_value _ st = None"

fun step :: "pstate \<Rightarrow> token \<Rightarrow> pstate option" where
  "step (ExpectValue st) t = start_value t st"
| "step (ArrayOpen st) t =
     (if t = RBracket then Some (deliver (JArray []) st) else start_value t (InArray [] # st))"
| "step (AfterElement es st) t =
     (if t = Comma then Some (ExpectValue (InArray es # st))
      else if t = RBracket then Some (deliver (JArray (rev es)) st)
      else None)"
| "step (ObjectOpen st) t =
     (case t of
        RBrace \<Rightarrow> Some (deliver (JObject []) st)
      | TString k \<Rightarrow> Some (ExpectColon [] k st)
      | _ \<Rightarrow> None)"
| "step (ExpectKey ms st) t =
     (case t of TString k \<Rightarrow> Some (ExpectColon ms k st) | _ \<Rightarrow> None)"
| "step (ExpectColon ms k st) t =
     (if t = Colon then Some (ExpectValue (InObject ms k # st)) else None)"
| "step (AfterMember ms st) t =
     (if t = Comma then Some (ExpectKey ms st)
      else if t = RBrace then Some (deliver (JObject ms) st)
      else None)"
| "step (Done v) t = None"

fun run :: "pstate \<Rightarrow> token list \<Rightarrow> pstate option" where
  "run s [] = Some s"
| "run s (t # ts) = (case step s t of None \<Rightarrow> None | Some s' \<Rightarrow> run s' ts)"

definition JSON_parse :: "jsstring \<Rightarrow> json option" where
  "JSON_parse s =
     (case tokenize s of
        None \<Rightarrow> None
      | Some ts \<Rightarrow> (case run (ExpectValue []) ts of Some (Done v) \<Rightarrow> Some v | _ \<Rightarrow> None))"

section \<open>Reading the parsed value\<close>

text \<open>
  \<open>None\<close> is \<^verbatim>\<open>undefined\<close>. A property read on an object gives its own member of that
  name; on a number, a boolean, a string or an array it gives \<^verbatim>\<open>undefined\<close> for the two
  names the handlers read, which no prototype defines. A property read on \<^verbatim>\<open>null\<close>
  throws; the callers test for it first. Zero and NaN are the falsy numbers.
\<close>

fun read_property :: "json \<Rightarrow> jsstring \<Rightarrow> json option" where
  "read_property (JObject ms) k = map_of ms k"
| "read_property _ k = None"

fun ToBoolean :: "json option \<Rightarrow> bool" where
  "ToBoolean None = False"
| "ToBoolean (Some JNull) = False"
| "ToBoolean (Some (JBool b)) = b"
| "ToBoolean (Some (JNumber x)) = (x \<noteq> Finite 0 \<and> x \<noteq> NaN)"
| "ToBoolean (Some (JString s)) = (s \<noteq> [])"
| "ToBoolean (Some (JArray es)) = True"
| "ToBoolean (Some (JObject ms)) = True"

datatype jstype = TUndefined | TObject | TBoolean | TNumberType | TStringType

fun typeof :: "json option \<Rightarrow> jstype" where
  "typeof None = TUndefined"
| "typeof (Some JNull) = TObject"
| "typeof (Some (JBool b)) = TBoolean"
| "typeof (Some (JNumber x)) = TNumberType"
| "typeof (Some (JString s)) = TStringType"
| "typeof (Some (JArray es)) = TObject"
| "typeof (Some (JObject ms)) = TObject"

text \<open>
  The \<^verbatim>\<open>try\<close> block of the three structured handlers, the same text in each:
  \<^verbatim>\<open>
    const cleanedText = generatedText.trim().replace(/^```json\s*/, '').replace(/\s*```$/, '');
    analysisObject = JSON.parse(cleanedText);
    if (!analysisObject.shoe_type || typeof analysisObject.recommended_time_minutes !== 'number') {
        throw new Error("Parsed JSON object is missing required fields or has incorrect type.");
    }
  \<close>
  \<open>None\<close> is any exception on the way to the \<^verbatim>\<open>catch\<close>: the SyntaxError of
  \<^verbatim>\<open>JSON.parse\<close>, the TypeError of a property read on \<^verbatim>\<open>null\<close>, or the Error thrown.
\<close>

definition analysisObject :: "jsstring \<Rightarrow> json option" where
  "analysisObject generatedText =
     (case JSON_parse (cleanedText generatedText) of
        None \<Rightarrow> None
      | Some obj \<Rightarrow>
          if obj = JNull then None
          else if \<not> ToBoolean (read_property obj (lit ''shoe_type'')) \<or>
                  typeof (read_property obj (lit ''recommended_time_minutes'')) \<noteq> TNumberType
          then None
          else Some obj)"

section \<open>Requests, the provider and responses\<close>

text \<open>A thrown value: an \<^verbatim>\<open>Error\<close> with its message, or anything else.\<close>

datatype thrown = ErrorObject jsstring | NonError

text \<open>What the handlers read of an uploaded \<^verbatim>\<open>File\<close>: its name, size and declared media
  type, and the bytes \<^verbatim>\<open>arrayBuffer()\<close> resolves to, unless it rejects.\<close>

record File =
  file_name :: jsstring
  file_size :: nat
  file_type :: jsstring
  arrayBuffer :: "thrown + nat list"

datatype FormDataEntryValue = StringEntry jsstring | FileEntry File

type_synonym FormData = "(jsstring \<times> FormDataEntryValue) list"

text \<open>\<^verbatim>\<open>formData.get(name)\<close>: the first entry of that name, or \<^verbatim>\<open>null\<close>.\<close>

definition formData_get :: "FormData \<Rightarrow> jsstring \<Rightarrow> FormDataEntryValue option" where
  "formData_get fd k = map_of fd k"

text \<open>\<^verbatim>\<open>request.formData()\<close> rejects when the body is not a form.\<close>

record Request =
  formData :: "thrown + FormData"

text \<open>
  The three instruction texts of the sources are Thai prose; no claim reads them, so each
  is a constant of its own. \<open>buildPrompt\<close> interpolates its two numbers.
\<close>

datatype PromptText = PROMPT_freetext | PROMPT_structured | buildPrompt jsnum jsnum

record InlineData =
  data :: "nat list"
  mimeType :: jsstring

record GenerateContentParameters =
  model :: jsstring
  prompt :: PromptText
  inlineData :: InlineData

text \<open>
  \<^verbatim>\<open>fileToGenerativePart\<close>: the bytes stand for their base64 text, and an empty declared
  type falls back to \<^verbatim>\<open>image/jpeg\<close>.
\<close>

definition fileToGenerativePart :: "File \<Rightarrow> thrown + InlineData" where
  "fileToGenerativePart file =
     (case arrayBuffer file of
        Inl e \<Rightarrow> Inl e
      | Inr buffer \<Rightarrow>
          Inr \<lparr>data = buffer,
               mimeType = (if file_type file = [] then lit ''image/jpeg'' else file_type file)\<rparr>)"

text \<open>The provider's reply, with every optional part of it optional.\<close>

record SafetyRating =
  category :: jsstring
  probability :: jsstring

record Part =
  part_text :: "jsstring option"

record Content =
  parts :: "Part list option"

record Candidate =
  content :: "Content option"

record PromptFeedback =
  blockReason :: "jsstring option"
  safetyRatings :: "SafetyRating list option"

record GenerateContentResponse =
  candidates :: "Candidate list option"
  promptFeedback :: "PromptFeedback option"

text \<open>
  \<^verbatim>\<open>
    const candidate = response.candidates?.[0];
    const generatedText = candidate?.content?.parts?.[0]?.text;
  \<close>
\<close>

definition first_candidate :: "GenerateContentResponse \<Rightarrow> Candidate option" where
  "first_candidate response =
     (case candidates response of None \<Rightarrow> None | Some [] \<Rightarrow> None | Some (c # _) \<Rightarrow> Some c)"

definition generatedText :: "GenerateContentResponse \<Rightarrow> jsstring option" where
  "generatedText response =
     (case first_candidate response of
        None \<Rightarrow> None
      | Some candidate \<Rightarrow>
          (case content candidate of
             None \<Rightarrow> None
           | Some c \<Rightarrow>
               (case parts c of None \<Rightarrow> None | Some [] \<Rightarrow> None | Some (p # _) \<Rightarrow> part_text p)))"

text \<open>
  A response is the object handed to \<^verbatim>\<open>NextResponse.json\<close>, before it is serialised, with
  the status and the headers. What the handlers do besides answering is a list of effects:
  the calls of the provider and the labels of the \<^verbatim>\<open>console.error\<close> lines.
\<close>

datatype field =
  FStr jsstring
  | FNum jsnum
  | FJson "json option"
  | FRatings "SafetyRating list option"
  | FResponse GenerateContentResponse

record HttpResponse =
  status :: nat
  headers :: "(string \<times> string) list"
  body :: "(string \<times> field) list"

datatype effect = Call GenerateContentParameters | ConsoleError string

definition NextResponse_json ::
  "(string \<times> field) list \<Rightarrow> nat \<Rightarrow> (string \<times> string) list \<Rightarrow> HttpResponse" where
  "NextResponse_json b s h = \<lparr>status = s, headers = h, body = b\<rparr>"

text \<open>
  What the client reads is what \<^verbatim>\<open>JSON.stringify\<close> writes of that object: a number
  that is not finite is written \<^verbatim>\<open>null\<close>, at any depth, and a field whose value is
  \<^verbatim>\<open>undefined\<close> is left out. Strings and finite numbers are read back as they were.
\<close>

fun stringify_json :: "json \<Rightarrow> json" where
  "stringify_json JNull = JNull"
| "stringify_json (JBool b) = JBool b"
| "stringify_json (JNumber x) = (case x of Finite r \<Rightarrow> JNumber x | _ \<Rightarrow> JNull)"
| "stringify_json (JString s) = JString s"
| "stringify_json (JArray es) = JArray (map stringify_json es)"
| "stringify_json (JObject ms) = JObject (map (map_prod id stringify_json) ms)"

fun stringify_field :: "field \<Rightarrow> field option" where
  "stringify_field (FStr s) = Some (FStr s)"
| "stringify_field (FNum x) = Some (case x of Finite r \<Rightarrow> FNum x | _ \<Rightarrow> FJson (Some JNull))"
| "stringify_field (FJson None) = None"
| "stringify_field (FJson (Some v)) = Some (FJson (Some (stringify_json v)))"
| "stringify_field (FRatings None) = None"
| "stringify_field (FRatings (Some ratings)) = Some (FRatings (Some ratings))"
| "stringify_field (FResponse response) = Some (FResponse response)"

definition sent_body :: "HttpResponse \<Rightarrow> (string \<times> field) list" where
  "sent_body r =
     List.map_filter (\<lambda>(k, f). map_option (Pair k) (stringify_field f)) (body r)"

definition corsHeaders :: "(string \<times> string) list" where
  "corsHeaders =
     [(''Access-Control-Allow-Origin'', ''*''),
      (''Access-Control-Allow-Methods'', ''POST, OPTIONS''),
      (''Access-Control-Allow-Headers'', ''Content-Type, Authorization'')]"

section \<open>The handlers\<close>

text \<open>
  The repository holds four versions of \<^verbatim>\<open>POST\<close>: the free-text one and the structured
  one of \<^verbatim>\<open>route.ts\<close>, the structured one with cross-origin headers, and the
  context-aware one, which also reads \<^verbatim>\<open>temperature\<close> and \<^verbatim>\<open>humidity\<close>. Each takes
  the provider's \<^verbatim>\<open>generateContent\<close> as a function, since the reply is not the handler's to
  choose, and returns its response with the effects in order.

  The first check of each, \<^verbatim>\<open>!fileEntry || typeof fileEntry === 'string'\<close> (and
  \<^verbatim>\<open>!(fileEntry instanceof File)\<close> where the source has it), lets through a \<^verbatim>\<open>File\<close>
  and nothing else: an entry is \<^verbatim>\<open>null\<close>, a string or a \<^verbatim>\<open>File\<close>.
\<close>

type_synonym provider = "GenerateContentParameters \<Rightarrow> thrown + GenerateContentResponse"

definition invalid_upload_message :: jsstring where
  \<open>invalid_upload_message = lit ''Invalid or missing file upload (expecting field name "file").''\<close>

text \<open>\<^verbatim>\<open>feedback && feedback.blockReason\<close>: the reason when it is there and not empty, with
  the ratings beside it.\<close>

definition blocked :: "GenerateContentResponse \<Rightarrow> (jsstring \<times> SafetyRating list option) option" where
  "blocked response =
     (case promptFeedback response of
        None \<Rightarrow> None
      | Some feedback \<Rightarrow>
          (case blockReason feedback of
             None \<Rightarrow> None
           | Some reason \<Rightarrow> if reason = [] then None else Some (reason, safetyRatings feedback)))"

subsection \<open>\<^verbatim>\<open>route.ts\<close>, free text\<close>

text \<open>The first \<^verbatim>\<open>POST\<close> of \<^verbatim>\<open>src/app/api/analyze-shoe/route.ts\<close>. Its \<^verbatim>\<open>catch\<close> and the
  second one's are the same text.\<close>

definition catch_plain :: "thrown \<Rightarrow> effect list \<Rightarrow> HttpResponse \<times> effect list" where
  "catch_plain error before =
     (NextResponse_json
        [(''error'', FStr (lit ''Failed to process the request due to an internal server error.'')),
         (''details'',
          FStr (case error of
                  ErrorObject message \<Rightarrow> message
                | NonError \<Rightarrow> lit ''An unknown error occurred.''))]
        500 [],
      before @ [ConsoleError ''Global Catch Error:''])"

definition no_text_freetext :: "GenerateContentResponse \<Rightarrow> HttpResponse \<times> effect list" where
  "no_text_freetext response =
     (case blocked response of
        Some (reason, ratings) \<Rightarrow>
          (NextResponse_json
             [(''error'', FStr (lit ''Content was blocked due to safety settings: '' @ reason)),
              (''safety_ratings'', FRatings ratings)]
             403 [],
           [ConsoleError ''Content Blocked:''])
      | None \<Rightarrow>
          (NextResponse_json
             [(''error'',
               FStr (lit ''Gemini did not return any text output or the response structure was unexpected.'')),
              (''full_response_debug'', FResponse response)]
             500 [],
           [ConsoleError ''Gemini failed to generate content:'']))"

definition respond_freetext :: "File \<Rightarrow> GenerateContentResponse \<Rightarrow> HttpResponse \<times> effect list" where
  "respond_freetext imageFile response =
     (case generatedText response of
        None \<Rightarrow> no_text_freetext response
      | Some text \<Rightarrow>
          if text = [] then no_text_freetext response
          else
            (NextResponse_json
               [(''filename'', FStr (file_name imageFile)),
                (''filesize'', FNum (Finite (of_nat (file_size imageFile)))),
                (''gemini_analysis'', FStr (trim text)),
                (''model_used'', FStr (lit ''gemini-2.5-flash''))]
               200 [],
             []))"

definition POST_freetext :: "provider \<Rightarrow> Request \<Rightarrow> HttpResponse \<times> effect list" where
  "POST_freetext generateContent request =
     (case formData request of
        Inl error \<Rightarrow> catch_plain error []
      | Inr fd \<Rightarrow>
          (case formData_get fd (lit ''file'') of
             Some (FileEntry imageFile) \<Rightarrow>
               if file_size imageFile = 0
               then (NextResponse_json [(''error'', FStr (lit ''Uploaded file is empty.''))] 400 [], [])
               else
                 (case fileToGenerativePart imageFile of
                    Inl error \<Rightarrow> catch_plain error []
                  | Inr imagePart \<Rightarrow>
                      (let params = \<lparr>model = lit ''gemini-2.5-flash'', prompt = PROMPT_freetext,
                                     inlineData = imagePart\<rparr>
                       in case generateContent params of
                            Inl error \<Rightarrow> catch_plain error [Call params]
                          | Inr response \<Rightarrow>
                              (case respond_freetext imageFile response of
                                 (r, es) \<Rightarrow> (r, Call params # es))))
           | _ \<Rightarrow> (NextResponse_json [(''error'', FStr invalid_upload_message)] 400 [], [])))"

subsection \<open>\<^verbatim>\<open>route.ts\<close>, structured\<close>

text \<open>The second \<^verbatim>\<open>POST\<close> of \<^verbatim>\<open>route.ts\<close>: the reply is parsed, and no headers are set.\<close>

definition no_text_structured :: "GenerateContentResponse \<Rightarrow> HttpResponse \<times> effect list" where
  "no_text_structured response =
     (case blocked response of
        Some (reason, ratings) \<Rightarrow>
          (NextResponse_json
             [(''error'', FStr (lit ''Content was blocked due to safety settings: '' @ reason)),
              (''safety_ratings'', FRatings ratings)]
             403 [],
           [])
      | None \<Rightarrow>
          (NextResponse_json
             [(''error'',
               FStr (lit ''Gemini did not return any text output or the response structure was unexpected.'')),
              (''full_response_debug'', FResponse response)]
             500 [],
           [ConsoleError ''Gemini failed to generate content:'']))"

definition respond_structured :: "File \<Rightarrow> GenerateContentResponse \<Rightarrow> HttpResponse \<times> effect list" where
  "respond_structured imageFile response =
     (case generatedText response of
        None \<Rightarrow> no_text_structured response
      | Some text \<Rightarrow>
          if text = [] then no_text_structured response
          else
            (case analysisObject text of
               None \<Rightarrow>
                 (NextResponse_json
                    [(''error'',
                      FStr (lit ''Analysis successful but failed to parse JSON output from Gemini. Check prompt compliance.'')),
                     (''gemini_raw_output'', FStr text)]
                    500 [],
                  [ConsoleError ''JSON Parsing Failed:''])
             | Some obj \<Rightarrow>
                 (NextResponse_json
                    [(''filename'', FStr (file_name imageFile)),
                     (''filesize'', FNum (Finite (of_nat (file_size imageFile)))),
                     (''shoe_type'', FJson (read_property obj (lit ''shoe_type''))),
                     (''recommended_time_minutes'',
                      FJson (read_property obj (lit ''recommended_time_minutes''))),
                     (''model_used'', FStr (lit ''gemini-2.5-flash''))]
                    200 [],
                  [])))"

definition POST_structured :: "provider \<Rightarrow> Request \<Rightarrow> HttpResponse \<times> effect list" where
  "POST_structured generateContent request =
     (case formData request of
        Inl error \<Rightarrow> catch_plain error []
      | Inr fd \<Rightarrow>
          (case formData_get fd (lit ''file'') of
             Some (FileEntry imageFile) \<Rightarrow>
               if file_size imageFile = 0
               then (NextResponse_json [(''error'', FStr (lit ''Uploaded file is empty.''))] 400 [], [])
               else
                 (case fileToGenerativePart imageFile of
                    Inl error \<Rightarrow> catch_plain error []
                  | Inr imagePart \<Rightarrow>
                      (let params = \<lparr>model = lit ''gemini-2.5-flash'', prompt = PROMPT_structured,
                                     inlineData = imagePart\<rparr>
                       in case generateContent params of
                            Inl error \<Rightarrow> catch_plain error [Call params]
                          | Inr response \<Rightarrow>
                              (case respond_structured imageFile response of
                                 (r, es) \<Rightarrow> (r, Call params # es))))
           | _ \<Rightarrow> (NextResponse_json [(''error'', FStr invalid_upload_message)] 400 [], [])))"

subsection \<open>Structured, with cross-origin headers\<close>

text \<open>The \<^verbatim>\<open>POST\<close> of \<^verbatim>\<open>part_000\<close>: the structured handler, every response with
  \<^verbatim>\<open>corsHeaders\<close>.\<close>

definition catch_cors :: "thrown \<Rightarrow> effect list \<Rightarrow> HttpResponse \<times> effect list" where
  "catch_cors error before =
     (NextResponse_json
        [(''error'', FStr (lit ''Failed to process the request due to an internal server error.'')),
         (''details'',
          FStr (case error of
                  ErrorObject message \<Rightarrow> message
                | NonError \<Rightarrow> lit ''An unknown error occurred.''))]
        500 corsHeaders,
      before @ [ConsoleError ''Global Catch Error:''])"

definition no_text_cors :: "GenerateContentResponse \<Rightarrow> HttpResponse \<times> effect list" where
  "no_text_cors response =
     (case blocked response of
        Some (reason, ratings) \<Rightarrow>
          (NextResponse_json
             [(''error'', FStr (lit ''Content was blocked due to safety settings: '' @ reason)),
              (''safety_ratings'', FRatings ratings)]
             403 corsHeaders,
           [])
      | None \<Rightarrow>
          (NextResponse_json
             [(''error'',
               FStr (lit ''Gemini did not return any text output or the response structure was unexpected.'')),
              (''full_response_debug'', FResponse response)]
             500 corsHeaders,
           [ConsoleError ''Gemini failed to generate content:'']))"

definition respond_cors :: "File \<Rightarrow> GenerateContentResponse \<Rightarrow> HttpResponse \<times> effect list" where
  "respond_cors imageFile response =
     (case generatedText response of
        None \<Rightarrow> no_text_cors response
      | Some text \<Rightarrow>
          if text = [] then no_text_cors response
          else
            (case analysisObject text of
               None \<Rightarrow>
                 (NextResponse_json
                    [(''error'',
                      FStr (lit ''Analysis successful but failed to parse JSON output from Gemini. Check prompt compliance.'')),
                     (''gemini_raw_output'', FStr text)]
                    500 corsHeaders,
                  [ConsoleError ''JSON Parsing Failed:''])
             | Some obj \<Rightarrow>
                 (NextResponse_json
                    [(''filename'', FStr (file_name imageFile)),
                     (''filesize'', FNum (Finite (of_nat (file_size imageFile)))),
                     (''shoe_type'', FJson (read_property obj (lit ''shoe_type''))),
                     (''recommended_time_minutes'',
                      FJson (read_property obj (lit ''recommended_time_minutes''))),
                     (''model_used'', FStr (lit ''gemini-2.5-flash''))]
                    200 corsHeaders,
                  [])))"

definition POST_cors :: "provider \<Rightarrow> Request \<Rightarrow> HttpResponse \<times> effect list" where
  "POST_cors generateContent request =
     (case formData request of
        Inl error \<Rightarrow> catch_cors error []
      | Inr fd \<Rightarrow>
          (case formData_get fd (lit ''file'') of
             Some (FileEntry imageFile) \<Rightarrow>
               if file_size imageFile = 0
               then (NextResponse_json [(''error'', FStr (lit ''Uploaded file is empty.''))]
                       400 corsHeaders, [])
               else
                 (case fileToGenerativePart imageFile of
                    Inl error \<Rightarrow> catch_cors error []
                  | Inr imagePart \<Rightarrow>
                      (let params = \<lparr>model = lit ''gemini-2.5-flash'', prompt = PROMPT_structured,
                                     inlineData = imagePart\<rparr>
                       in case generateContent params of
                            Inl error \<Rightarrow> catch_cors error [Call params]
                          | Inr response \<Rightarrow>
                              (case respond_cors imageFile response of
                                 (r, es) \<Rightarrow> (r, Call params # es))))
           | _ \<Rightarrow> (NextResponse_json [(''error'', FStr invalid_upload_message)]
                     400 corsHeaders, [])))"

subsection \<open>Context-aware\<close>

text \<open>The \<^verbatim>\<open>POST\<close> of \<^verbatim>\<open>part_001\<close>.\<close>

text \<open>
  \<^verbatim>\<open>
    const humidity = humidityRaw ? Number(humidityRaw) : undefined;
    const temperature = tempRaw ? Number(tempRaw) : undefined;
  \<close>
  An entry is falsy when it is \<^verbatim>\<open>null\<close> or the empty string. \<^verbatim>\<open>Number\<close> of a \<^verbatim>\<open>File\<close>
  is NaN: its primitive is the text \<^verbatim>\<open>[object File]\<close>.
\<close>

fun Number_of :: "FormDataEntryValue \<Rightarrow> jsnum" where
  "Number_of (StringEntry s) = StringToNumber s"
| "Number_of (FileEntry f) = NaN"

fun optional_Number :: "FormDataEntryValue option \<Rightarrow> jsnum option" where
  "optional_Number None = None"
| "optional_Number (Some (StringEntry s)) = (if s = [] then None else Some (Number_of (StringEntry s)))"
| "optional_Number (Some (FileEntry f)) = Some (Number_of (FileEntry f))"

definition catch_context :: "thrown \<Rightarrow> effect list \<Rightarrow> HttpResponse \<times> effect list" where
  "catch_context error before =
     (NextResponse_json
        [(''error'', FStr (lit ''Internal server error occurred while processing your request.'')),
         (''details'',
          FStr (case error of
                  ErrorObject message \<Rightarrow> message
                | NonError \<Rightarrow> lit ''Unknown error.''))]
        500 corsHeaders,
      before @ [ConsoleError ''Global Catch Error:''])"

definition no_text_context :: "GenerateContentResponse \<Rightarrow> HttpResponse \<times> effect list" where
  "no_text_context response =
     (case blocked response of
        Some (reason, ratings) \<Rightarrow>
          (NextResponse_json
             [(''error'', FStr (lit ''Content blocked due to safety settings: '' @ reason)),
              (''safety_ratings'', FRatings ratings)]
             403 corsHeaders,
           [])
      | None \<Rightarrow>
          (NextResponse_json
             [(''error'', FStr (lit ''Gemini did not return valid text. See debug info.'')),
              (''full_response_debug'', FResponse response)]
             500 corsHeaders,
           [ConsoleError ''Gemini failed to generate content:'']))"

definition respond_context ::
  "File \<Rightarrow> jsnum \<Rightarrow> jsnum \<Rightarrow> GenerateContentResponse \<Rightarrow> HttpResponse \<times> effect list" where
  "respond_context imageFile temperature humidity response =
     (case generatedText response of
        None \<Rightarrow> no_text_context response
      | Some text \<Rightarrow>
          if text = [] then no_text_context response
          else
            (case analysisObject text of
               None \<Rightarrow>
                 (NextResponse_json
                    [(''error'',
                      FStr (lit ''Analysis succeeded but the JSON response from Gemini could not be parsed.'')),
                     (''gemini_raw_output'', FStr text)]
                    500 corsHeaders,
                  [ConsoleError ''JSON Parsing Failed:''])
             | Some obj \<Rightarrow>
                 (NextResponse_json
                    [(''filename'', FStr (file_name imageFile)),
                     (''filesize'', FNum (Finite (of_nat (file_size imageFile)))),
                     (''shoe_type'', FJson (read_property obj (lit ''shoe_type''))),
                     (''recommended_time_minutes'',
                      FJson (read_property obj (lit ''recommended_time_minutes''))),
                     (''temperature'', FNum temperature),
                     (''humidity'', FNum humidity),
                     (''model_used'', FStr (lit ''gemini-2.5-flash''))]
                    200 corsHeaders,
                  [])))"

definition missing_numbers :: "HttpResponse \<times> effect list" where
  "missing_numbers =
     (NextResponse_json
        [(''error'', FStr (lit ''Missing or invalid humidity/temperature. Both must be numeric.''))]
        400 corsHeaders,
      [])"

definition POST_context :: "provider \<Rightarrow> Request \<Rightarrow> HttpResponse \<times> effect list" where
  "POST_context generateContent request =
     (case formData request of
        Inl error \<Rightarrow> catch_context error []
      | Inr fd \<Rightarrow>
          (case formData_get fd (lit ''file'') of
             Some (FileEntry imageFile) \<Rightarrow>
               if file_size imageFile = 0
               then (NextResponse_json [(''error'', FStr (lit ''Uploaded file is empty.''))]
                       400 corsHeaders, [])
               else
                 (case (optional_Number (formData_get fd (lit ''humidity'')),
                        optional_Number (formData_get fd (lit ''temperature''))) of
                    (Some humidity, Some temperature) \<Rightarrow>
                      if isNaN humidity \<or> isNaN temperature then missing_numbers
                      else
                        (case fileToGenerativePart imageFile of
                           Inl error \<Rightarrow> catch_context error []
                         | Inr imagePart \<Rightarrow>
                             (let params = \<lparr>model = lit ''gemini-2.5-flash'',
                                            prompt = buildPrompt temperature humidity,
                                            inlineData = imagePart\<rparr>
                              in case generateContent params of
                                   Inl error \<Rightarrow> catch_context error [Call params]
                                 | Inr response \<Rightarrow>
                                     (case respond_context imageFile temperature humidity response of
                                        (r, es) \<Rightarrow> (r, Call params # es))))
                  | _ \<Rightarrow> missing_numbers)
           | _ \<Rightarrow> (NextResponse_json [(''error'', FStr invalid_upload_message)]
                     400 corsHeaders, [])))"

section \<open>Facts about the model\<close>

subsection \<open>A text that parses to an object starts with a token and ends with a brace\<close>

lemma JSON_white_is_white: "isJSONWhiteSpace c \<Longrightarrow> isWhiteSpace c"
  by (auto simp: isJSONWhiteSpace_def isWhiteSpace_def)

definition token_start :: "nat \<Rightarrow> bool" where
  "token_start c \<longleftrightarrow> \<not> isWhiteSpace c \<and> c \<noteq> 0x60"

lemma tokenize_step:
  assumes "tokenize (c # cs) = Some ts"
  shows "(isJSONWhiteSpace c \<and> tokenize cs = Some ts) \<or>
         (\<exists>tok rest ts'. ts = tok # ts' \<and> tokenize rest = Some ts' \<and> suffix rest cs \<and>
            token_start c \<and> (tok = RBrace \<longrightarrow> c = 0x7D \<and> rest = cs))"
proof (cases "isJSONWhiteSpace c")
  case True
  with assms show ?thesis by simp
next
  case ws: False
  consider (punct) "c = 0x7B \<or> c = 0x7D \<or> c = 0x5B \<or> c = 0x5D \<or> c = 0x3A \<or> c = 0x2C"
    | (str) "c = 0x22"
    | (num) "c = 0x2D \<or> isDigit c"
    | (word) "\<not> (c = 0x7B \<or> c = 0x7D \<or> c = 0x5B \<or> c = 0x5D \<or> c = 0x3A \<or> c = 0x2C)"
        "c \<noteq> 0x22" "\<not> (c = 0x2D \<or> isDigit c)"
    by blast
  then show ?thesis
  proof cases
    case punct
    then have "token_start c" by (auto simp: token_start_def isWhiteSpace_def)
    with punct ws assms show ?thesis
      by (auto split: if_splits)
  next
    case str
    then have "token_start c" by (auto simp: token_start_def isWhiteSpace_def)
    with str ws assms show ?thesis
      by (auto split: if_splits option.splits dest: lex_string_suffix)
  next
    case num
    then have ts: "token_start c" by (auto simp: token_start_def isWhiteSpace_def isDigit_def)
    from num have np: "c \<noteq> 0x7B" "c \<noteq> 0x7D" "c \<noteq> 0x5B" "c \<noteq> 0x5D" "c \<noteq> 0x3A" "c \<noteq> 0x2C" "c \<noteq> 0x22"
      by (auto simp: isDigit_def)
    from assms ws np num obtain x rest ts' where
      l: "lex_number (c # cs) = Some (x, rest)" and t: "tokenize rest = Some ts'" and e: "ts = TNumber x # ts'"
      by (auto split: option.splits)
    have "suffix rest cs"
      using lex_number_suffix[OF l] by (auto simp: suffix_Cons)
    with t e ts show ?thesis by auto
  next
    case word
    with ws assms have
      "(prefix (lit ''true'') (c # cs) \<and> c = 0x74 \<and> (\<exists>ts'. ts = TTrue # ts' \<and> tokenize (drop 3 cs) = Some ts')) \<or>
       (prefix (lit ''false'') (c # cs) \<and> c = 0x66 \<and> (\<exists>ts'. ts = TFalse # ts' \<and> tokenize (drop 4 cs) = Some ts')) \<or>
       (prefix (lit ''null'') (c # cs) \<and> c = 0x6E \<and> (\<exists>ts'. ts = TNull # ts' \<and> tokenize (drop 3 cs) = Some ts'))"
      by (auto simp: lit_def split: if_splits)
    then obtain n tok ts' where c: "c = 0x74 \<or> c = 0x66 \<or> c = 0x6E"
      and t: "tokenize (drop n cs) = Some ts'" and e: "ts = tok # ts'" and r: "tok \<noteq> RBrace"
      by auto
    from c have "token_start c" by (auto simp: token_start_def isWhiteSpace_def)
    moreover have "suffix (drop n cs) cs" by (rule suffix_drop)
    ultimately show ?thesis using t e r by blast
  qed
qed

lemma tokenize_Nil: "tokenize s = Some [] \<Longrightarrow> list_all isJSONWhiteSpace s"
proof (induction s)
  case Nil
  then show ?case by simp
next
  case (Cons c cs)
  from tokenize_step[OF Cons.prems] Cons.IH show ?case by auto
qed

lemma tokenize_object_shape:
  "tokenize s = Some ts \<Longrightarrow> ts \<noteq> [] \<Longrightarrow> last ts = RBrace \<Longrightarrow>
   \<exists>w core w2. s = w @ core @ w2 \<and> list_all isJSONWhiteSpace w \<and> list_all isJSONWhiteSpace w2 \<and>
     core \<noteq> [] \<and> token_start (hd core) \<and> last core = 0x7D"
proof (induction s arbitrary: ts rule: length_induct)
  case (1 s)
  show ?case
  proof (cases s)
    case Nil
    with 1 show ?thesis by simp
  next
    case (Cons c cs)
    from tokenize_step[of c cs ts] "1.prems" Cons
    consider (ws) "isJSONWhiteSpace c" "tokenize cs = Some ts"
      | (tok) tok rest ts' where "ts = tok # ts'" "tokenize rest = Some ts'" "suffix rest cs"
          "token_start c" "tok = RBrace \<longrightarrow> c = 0x7D \<and> rest = cs"
      by blast
    then show ?thesis
    proof cases
      case ws
      have "length cs < length s" using Cons by simp
      with "1.IH" ws(2) "1.prems"(2,3) obtain w core w2 where
        "cs = w @ core @ w2" "list_all isJSONWhiteSpace w" "list_all isJSONWhiteSpace w2"
        "core \<noteq> []" "token_start (hd core)" "last core = 0x7D"
        by blast
      then have "s = (c # w) @ core @ w2 \<and> list_all isJSONWhiteSpace (c # w) \<and>
        list_all isJSONWhiteSpace w2 \<and> core \<noteq> [] \<and> token_start (hd core) \<and> last core = 0x7D"
        using ws(1) Cons by simp
      then show ?thesis by blast
    next
      case tok
      from tok(3) obtain z where z: "cs = z @ rest" by (auto simp: suffix_def)
      show ?thesis
      proof (cases "ts' = []")
        case True
        with tok "1.prems" have c: "c = 0x7D" and r: "rest = cs" by auto
        from True tok(2) r have "list_all isJSONWhiteSpace cs" by (auto dest: tokenize_Nil)
        then have "s = [] @ [c] @ cs \<and> list_all isJSONWhiteSpace [] \<and> list_all isJSONWhiteSpace cs \<and>
          [c] \<noteq> [] \<and> token_start (hd [c]) \<and> last [c] = 0x7D"
          using Cons c tok(4) by simp
        then show ?thesis by blast
      next
        case False
        have "length rest < length s" using Cons z by simp
        moreover have "last ts' = RBrace" using False tok(1) "1.prems"(3) by simp
        ultimately obtain w core w2 where
          "rest = w @ core @ w2" "list_all isJSONWhiteSpace w2"
          "core \<noteq> []" "last core = 0x7D"
          using "1.IH" tok(2) False by blast
        then have "s = [] @ (c # z @ w @ core) @ w2 \<and> list_all isJSONWhiteSpace [] \<and>
          list_all isJSONWhiteSpace w2 \<and> (c # z @ w @ core) \<noteq> [] \<and>
          token_start (hd (c # z @ w @ core)) \<and> last (c # z @ w @ core) = 0x7D"
          using Cons z tok(4) by simp
        then show ?thesis by blast
      qed
    qed
  qed
qed

lemma run_snoc: "run s (ts @ [t]) = (case run s ts of None \<Rightarrow> None | Some s' \<Rightarrow> step s' t)"
  by (induction ts arbitrary: s) (auto split: option.splits)

lemma deliver_Done: "deliver v st = Done v' \<longleftrightarrow> st = [] \<and> v = v'"
  by (cases "(v, st)" rule: deliver.cases) auto

lemma start_value_object: "start_value t st \<noteq> Some (Done (JObject ms))"
  by (cases "(t, st)" rule: start_value.cases) (auto simp: deliver_Done)

lemma step_Done_object: "step s t = Some (Done (JObject ms)) \<Longrightarrow> t = RBrace"
  by (cases "(s, t)" rule: step.cases)
     (auto simp: deliver_Done start_value_object split: if_splits token.splits)

lemma run_object_last:
  assumes "run (ExpectValue []) ts = Some (Done (JObject ms))"
  shows "ts \<noteq> [] \<and> last ts = RBrace"
proof (cases ts rule: rev_cases)
  case Nil
  with assms show ?thesis by simp
next
  case (snoc ys y)
  with assms show ?thesis
    by (auto simp: run_snoc split: option.splits dest: step_Done_object)
qed

lemma JSON_parse_object_shape:
  assumes "JSON_parse s = Some (JObject ms)"
  shows "\<exists>w core w2. s = w @ core @ w2 \<and> list_all isJSONWhiteSpace w \<and> list_all isJSONWhiteSpace w2 \<and>
     core \<noteq> [] \<and> token_start (hd core) \<and> last core = 0x7D"
proof -
  from assms obtain ts where t: "tokenize s = Some ts"
    and r: "run (ExpectValue []) ts = Some (Done (JObject ms))"
    by (auto simp: JSON_parse_def split: option.splits pstate.splits)
  from run_object_last[OF r] tokenize_object_shape[OF t] show ?thesis by blast
qed

subsection \<open>Cleaning a text around such a core\<close>

lemma dropWhile_white_core:
  "list_all isWhiteSpace w \<Longrightarrow> core \<noteq> [] \<Longrightarrow> \<not> isWhiteSpace (hd core) \<Longrightarrow>
   dropWhile isWhiteSpace (w @ core @ r) = core @ r"
  by (cases core) (auto simp: dropWhile_append2 list_all_iff)

lemma trim_core:
  assumes "list_all isWhiteSpace w1" "list_all isWhiteSpace w2" "core \<noteq> []"
    "\<not> isWhiteSpace (hd core)" "\<not> isWhiteSpace (last core)"
  shows "trim (w1 @ core @ w2) = core"
proof -
  have a: "dropWhile isWhiteSpace (w1 @ core @ w2) = core @ w2"
    using assms by (simp add: dropWhile_white_core)
  have "dropWhile isWhiteSpace (rev w2 @ rev core @ []) = rev core @ []"
    using assms by (intro dropWhile_white_core) (auto simp: hd_rev list_all_iff)
  then show ?thesis by (simp add: trim_def a)
qed

lemma cleanedText_core:
  assumes "list_all isWhiteSpace w1" "list_all isWhiteSpace w2" "core \<noteq> []"
    "token_start (hd core)" "last core = 0x7D"
  shows "cleanedText (w1 @ core @ w2) = core"
proof -
  have l: "\<not> isWhiteSpace (last core)" using assms(5) by (simp add: isWhiteSpace_def)
  have t: "trim (w1 @ core @ w2) = core"
    using assms l by (intro trim_core) (auto simp: token_start_def)
  have "\<not> prefix opening_fence core"
    using assms(3,4) by (cases core) (auto simp: opening_fence_def token_start_def)
  moreover have "\<not> suffix closing_fence core"
    using assms(3,5) by (cases core rule: rev_cases) (auto simp: closing_fence_def suffix_def)
  ultimately show ?thesis
    by (simp add: cleanedText_def t replace_opening_fence_def replace_closing_fence_def)
qed

lemma cleanedText_fenced:
  assumes "list_all isWhiteSpace w1" "list_all isWhiteSpace w2" "core \<noteq> []"
    "token_start (hd core)" "last core = 0x7D"
  shows "cleanedText (opening_fence @ w1 @ core @ w2 @ closing_fence) = core"
proof -
  let ?s = "opening_fence @ w1 @ core @ w2 @ closing_fence"
  have nw: "\<not> isWhiteSpace 0x60" by (simp add: isWhiteSpace_def)
  have "trim ([] @ ?s @ []) = ?s"
    by (rule trim_core) (auto simp: opening_fence_def closing_fence_def nw)
  then have t: "trim ?s = ?s" by simp
  have o: "replace_opening_fence ?s = core @ w2 @ closing_fence"
    using assms by (simp add: replace_opening_fence_def dropWhile_white_core token_start_def)
  have "suffix closing_fence (core @ w2 @ closing_fence)"
    by (simp add: suffix_def)
  moreover have "dropWhile isWhiteSpace (rev w2 @ rev core @ []) = rev core @ []"
    using assms by (intro dropWhile_white_core) (auto simp: hd_rev list_all_iff isWhiteSpace_def)
  ultimately have "replace_closing_fence (core @ w2 @ closing_fence) = core"
    by (simp add: replace_closing_fence_def)
  then show ?thesis by (simp add: cleanedText_def t o)
qed

lemma list_all_JSON_white: "list_all isJSONWhiteSpace w \<Longrightarrow> list_all isWhiteSpace w"
  by (auto simp: list_all_iff JSON_white_is_white)

lemma cleanedText_wrapped:
  assumes "JSON_parse t = Some (JObject ms)" "list_all isWhiteSpace ws1" "list_all isWhiteSpace ws2"
  shows "cleanedText (opening_fence @ ws1 @ t @ ws2 @ closing_fence) = cleanedText t"
proof -
  from JSON_parse_object_shape[OF assms(1)] obtain w core w2 where
    t: "t = w @ core @ w2" and w: "list_all isJSONWhiteSpace w" "list_all isJSONWhiteSpace w2"
    and c: "core \<noteq> []" "token_start (hd core)" "last core = 0x7D"
    by blast
  have "cleanedText (opening_fence @ (ws1 @ w) @ core @ (w2 @ ws2) @ closing_fence) = core"
    using assms(2,3) w c by (intro cleanedText_fenced) (auto dest: list_all_JSON_white)
  moreover have "cleanedText (w @ core @ w2) = core"
    using w c by (intro cleanedText_core) (auto dest: list_all_JSON_white)
  ultimately show ?thesis by (simp add: t)
qed

subsection \<open>The handlers, stage by stage\<close>

lemmas respond_defs =
  respond_freetext_def respond_structured_def respond_cors_def respond_context_def
  no_text_freetext_def no_text_structured_def no_text_cors_def no_text_context_def

lemmas POST_defs =
  POST_freetext_def POST_structured_def POST_cors_def POST_context_def
  catch_plain_def catch_cors_def catch_context_def missing_numbers_def

lemma respond_no_call:
  "Call p \<notin> set (snd (respond_freetext f r))"
  "Call p \<notin> set (snd (respond_structured f r))"
  "Call p \<notin> set (snd (respond_cors f r))"
  "Call p \<notin> set (snd (respond_context f t h r))"
  by (simp_all add: respond_defs split: option.splits prod.splits)

lemma POST_freetext_reply:
  assumes "Call p \<in> set (snd (POST_freetext g request))" "g p = Inr response"
  shows "\<exists>imageFile. fst (POST_freetext g request) = fst (respond_freetext imageFile response)"
  using assms
  by (auto simp: POST_defs Let_def respond_no_call case_prod_beta
       split: sum.splits option.splits FormDataEntryValue.splits if_splits)

lemma POST_structured_reply:
  assumes "Call p \<in> set (snd (POST_structured g request))" "g p = Inr response"
  shows "\<exists>imageFile. fst (POST_structured g request) = fst (respond_structured imageFile response)"
  using assms
  by (auto simp: POST_defs Let_def respond_no_call case_prod_beta
       split: sum.splits option.splits FormDataEntryValue.splits if_splits)

lemma POST_cors_reply:
  assumes "Call p \<in> set (snd (POST_cors g request))" "g p = Inr response"
  shows "\<exists>imageFile. fst (POST_cors g request) = fst (respond_cors imageFile response)"
  using assms
  by (auto simp: POST_defs Let_def respond_no_call case_prod_beta
       split: sum.splits option.splits FormDataEntryValue.splits if_splits)

lemma POST_context_reply:
  assumes "Call p \<in> set (snd (POST_context g request))" "g p = Inr response"
  shows "\<exists>imageFile t h.
    fst (POST_context g request) = fst (respond_context imageFile t h response)"
  using assms
  apply (auto simp: POST_defs Let_def respond_no_call case_prod_beta
       split: sum.splits option.splits FormDataEntryValue.splits if_splits)
  apply blast
  done

lemma NextResponse_json_sel [simp]:
  "status (NextResponse_json b s h) = s"
  "headers (NextResponse_json b s h) = h"
  "body (NextResponse_json b s h) = b"
  by (simp_all add: NextResponse_json_def)

lemma POST_structured_200:
  assumes "status (fst (POST_structured g request)) = 200"
  shows "\<exists>p response imageFile. Call p \<in> set (snd (POST_structured g request)) \<and>
    g p = Inr response \<and>
    fst (POST_structured g request) = fst (respond_structured imageFile response)"
  using assms
  by (auto simp: POST_defs Let_def case_prod_beta
       split: sum.splits option.splits FormDataEntryValue.splits if_splits)

lemma POST_cors_200:
  assumes "status (fst (POST_cors g request)) = 200"
  shows "\<exists>p response imageFile. Call p \<in> set (snd (POST_cors g request)) \<and>
    g p = Inr response \<and>
    fst (POST_cors g request) = fst (respond_cors imageFile response)"
  using assms
  by (auto simp: POST_defs Let_def case_prod_beta
       split: sum.splits option.splits FormDataEntryValue.splits if_splits)

lemma POST_context_200:
  assumes "status (fst (POST_context g request)) = 200"
  shows "\<exists>p response imageFile t h. Call p \<in> set (snd (POST_context g request)) \<and>
    g p = Inr response \<and>
    fst (POST_context g request) = fst (respond_context imageFile t h response)"
  using assms
  apply (auto simp: POST_defs Let_def case_prod_beta
       split: sum.splits option.splits FormDataEntryValue.splits if_splits)
  apply blast
  done

lemma analysisObject_Some:
  "analysisObject text = Some obj \<longleftrightarrow>
     JSON_parse (cleanedText text) = Some obj \<and> obj \<noteq> JNull \<and>
     ToBoolean (read_property obj (lit ''shoe_type'')) \<and>
     typeof (read_property obj (lit ''recommended_time_minutes'')) = TNumberType"
  by (auto simp: analysisObject_def split: option.splits)

lemma typeof_number: "typeof v = TNumberType \<longleftrightarrow> (\<exists>x. v = Some (JNumber x))"
  by (cases v rule: typeof.cases) auto

lemma respond_200:
  "status (fst (respond_structured f r)) = 200 \<Longrightarrow>
     \<exists>text obj. generatedText r = Some text \<and> text \<noteq> [] \<and> analysisObject text = Some obj \<and>
       map_of (body (fst (respond_structured f r))) ''recommended_time_minutes'' =
         Some (FJson (read_property obj (lit ''recommended_time_minutes'')))"
  "status (fst (respond_cors f r)) = 200 \<Longrightarrow>
     \<exists>text obj. generatedText r = Some text \<and> text \<noteq> [] \<and> analysisObject text = Some obj \<and>
       map_of (body (fst (respond_cors f r))) ''recommended_time_minutes'' =
         Some (FJson (read_property obj (lit ''recommended_time_minutes'')))"
  "status (fst (respond_context f t h r)) = 200 \<Longrightarrow>
     \<exists>text obj. generatedText r = Some text \<and> text \<noteq> [] \<and> analysisObject text = Some obj \<and>
       map_of (body (fst (respond_context f t h r))) ''recommended_time_minutes'' =
         Some (FJson (read_property obj (lit ''recommended_time_minutes'')))"
  by (auto simp: respond_defs split: option.splits if_splits)

text \<open>The minutes of a successful response, as they are sent.\<close>

lemma sent_success_minutes:
  assumes "ToBoolean label" "minutes = Some (JNumber x)"
  shows "map_of (List.map_filter (\<lambda>(k, f). map_option (Pair k) (stringify_field f))
           ((''filename'', FStr a) # (''filesize'', FNum b) # (''shoe_type'', FJson label) #
            (''recommended_time_minutes'', FJson minutes) # rest))
           ''recommended_time_minutes'' =
         Some (FJson (Some (case x of Finite r \<Rightarrow> JNumber x | _ \<Rightarrow> JNull)))"
proof -
  from assms(1) obtain v where "label = Some v" by (cases label) auto
  with assms(2) show ?thesis
    by (cases b) (simp_all add: List.map_filter_simps)
qed

lemma analysisObject_fields:
  assumes "analysisObject tx = Some obj"
  shows "ToBoolean (read_property obj (lit ''shoe_type''))"
    and "\<exists>x. read_property obj (lit ''recommended_time_minutes'') = Some (JNumber x)"
  using assms by (auto simp: analysisObject_Some typeof_number)

lemma respond_structured_200_sent:
  assumes "status (fst (respond_structured f r)) = 200"
  shows "\<exists>tx obj x. generatedText r = Some tx \<and> tx \<noteq> [] \<and> analysisObject tx = Some obj \<and>
       read_property obj (lit ''recommended_time_minutes'') = Some (JNumber x) \<and>
       map_of (sent_body (fst (respond_structured f r))) ''recommended_time_minutes'' =
         Some (FJson (Some (case x of Finite r \<Rightarrow> JNumber x | _ \<Rightarrow> JNull)))"
proof -
  from respond_200(1)[OF assms] obtain tx obj where
    a: "generatedText r = Some tx" "tx \<noteq> []" "analysisObject tx = Some obj"
    by blast
  from analysisObject_fields[OF a(3)] obtain x where
    l: "ToBoolean (read_property obj (lit ''shoe_type''))"
    and m: "read_property obj (lit ''recommended_time_minutes'') = Some (JNumber x)"
    by blast
  have "map_of (sent_body (fst (respond_structured f r))) ''recommended_time_minutes'' =
         Some (FJson (Some (case x of Finite r \<Rightarrow> JNumber x | _ \<Rightarrow> JNull)))"
    using sent_success_minutes[OF l m]
    by (simp add: respond_structured_def a sent_body_def)
  with a m show ?thesis by blast
qed

lemma respond_cors_200_sent:
  assumes "status (fst (respond_cors f r)) = 200"
  shows "\<exists>tx obj x. generatedText r = Some tx \<and> tx \<noteq> [] \<and> analysisObject tx = Some obj \<and>
       read_property obj (lit ''recommended_time_minutes'') = Some (JNumber x) \<and>
       map_of (sent_body (fst (respond_cors f r))) ''recommended_time_minutes'' =
         Some (FJson (Some (case x of Finite r \<Rightarrow> JNumber x | _ \<Rightarrow> JNull)))"
proof -
  from respond_200(2)[OF assms] obtain tx obj where
    a: "generatedText r = Some tx" "tx \<noteq> []" "analysisObject tx = Some obj"
    by blast
  from analysisObject_fields[OF a(3)] obtain x where
    l: "ToBoolean (read_property obj (lit ''shoe_type''))"
    and m: "read_property obj (lit ''recommended_time_minutes'') = Some (JNumber x)"
    by blast
  have "map_of (sent_body (fst (respond_cors f r))) ''recommended_time_minutes'' =
         Some (FJson (Some (case x of Finite r \<Rightarrow> JNumber x | _ \<Rightarrow> JNull)))"
    using sent_success_minutes[OF l m]
    by (simp add: respond_cors_def a sent_body_def)
  with a m show ?thesis by blast
qed

lemma respond_context_200_sent:
  assumes "status (fst (respond_context f t h r)) = 200"
  shows "\<exists>tx obj x. generatedText r = Some tx \<and> tx \<noteq> [] \<and> analysisObject tx = Some obj \<and>
       read_property obj (lit ''recommended_time_minutes'') = Some (JNumber x) \<and>
       map_of (sent_body (fst (respond_context f t h r))) ''recommended_time_minutes'' =
         Some (FJson (Some (case x of Finite r \<Rightarrow> JNumber x | _ \<Rightarrow> JNull)))"
proof -
  from respond_200(3)[OF assms] obtain tx obj where
    a: "generatedText r = Some tx" "tx \<noteq> []" "analysisObject tx = Some obj"
    by blast
  from analysisObject_fields[OF a(3)] obtain x where
    l: "ToBoolean (read_property obj (lit ''shoe_type''))"
    and m: "read_property obj (lit ''recommended_time_minutes'') = Some (JNumber x)"
    by blast
  have "map_of (sent_body (fst (respond_context f t h r))) ''recommended_time_minutes'' =
         Some (FJson (Some (case x of Finite r \<Rightarrow> JNumber x | _ \<Rightarrow> JNull)))"
    using sent_success_minutes[OF l m]
    by (simp add: respond_context_def a sent_body_def)
  with a m show ?thesis by blast
qed

lemma respond_failure:
  assumes "generatedText r = Some text" "text \<noteq> []" "analysisObject text = None"
  shows
    "status (fst (respond_structured f r)) = 500 \<and>
     map_of (body (fst (respond_structured f r))) ''gemini_raw_output'' = Some (FStr text)"
    "status (fst (respond_cors f r)) = 500 \<and>
     map_of (body (fst (respond_cors f r))) ''gemini_raw_output'' = Some (FStr text)"
    "status (fst (respond_context f t h r)) = 500 \<and>
     map_of (body (fst (respond_context f t h r))) ''gemini_raw_output'' = Some (FStr text)"
  using assms by (simp_all add: respond_defs)

lemma respond_blocked:
  assumes "generatedText r = None \<or> generatedText r = Some []"
    "promptFeedback r = Some feedback" "blockReason feedback = Some reason" "reason \<noteq> []"
  shows
    "fst (respond_freetext f r) =
       NextResponse_json
         [(''error'', FStr (lit ''Content was blocked due to safety settings: '' @ reason)),
          (''safety_ratings'', FRatings (safetyRatings feedback))] 403 []"
    "fst (respond_structured f r) =
       NextResponse_json
         [(''error'', FStr (lit ''Content was blocked due to safety settings: '' @ reason)),
          (''safety_ratings'', FRatings (safetyRatings feedback))] 403 []"
    "fst (respond_cors f r) =
       NextResponse_json
         [(''error'', FStr (lit ''Content was blocked due to safety settings: '' @ reason)),
          (''safety_ratings'', FRatings (safetyRatings feedback))] 403 corsHeaders"
    "fst (respond_context f t h r) =
       NextResponse_json
         [(''error'', FStr (lit ''Content blocked due to safety settings: '' @ reason)),
          (''safety_ratings'', FRatings (safetyRatings feedback))] 403 corsHeaders"
  using assms by (auto simp: respond_defs blocked_def)

lemma JSON_parse_empty: "JSON_parse (cleanedText []) = None"
  by (simp add: JSON_parse_def cleanedText_def trim_def replace_opening_fence_def
      replace_closing_fence_def opening_fence_def closing_fence_def)

lemma analysis_failure_response:
  assumes "POST \<in> {POST_structured, POST_cors, POST_context}"
    and "Call p \<in> set (snd (POST g request))" and "g p = Inr response"
    and "generatedText response = Some t" and "t \<noteq> []"
    and "analysisObject t = None"
  shows "status (fst (POST g request)) = 500 \<and>
         map_of (body (fst (POST g request))) ''gemini_raw_output'' = Some (FStr t)"
proof -
  note f = respond_failure[OF assms(4,5,6)]
  consider "POST = POST_structured" | "POST = POST_cors" | "POST = POST_context"
    using assms(1) by auto
  then show ?thesis
  proof cases
    case 1
    with POST_structured_reply[of p g request response] assms(2,3) f(1) show ?thesis by auto
  next
    case 2
    with POST_cors_reply[of p g request response] assms(2,3) f(2) show ?thesis by auto
  next
    case 3
    with POST_context_reply[of p g request response] assms(2,3) f(3) show ?thesis by auto
  qed
qed

lemma parsed_text_nonempty: "JSON_parse (cleanedText t) = Some v \<Longrightarrow> t \<noteq> []"
  using JSON_parse_empty by auto

subsection \<open>Two replies to the same request\<close>

text \<open>Two responses give the same result when they agree on the status and on the two
  fields of the analysis. \<open>replying\<close> is the provider that gives one reply to every
  call.\<close>

definition replying :: "GenerateContentResponse \<Rightarrow> provider" where
  "replying response = (\<lambda>params. Inr response)"

definition same_result :: "HttpResponse \<Rightarrow> HttpResponse \<Rightarrow> bool" where
  "same_result a b \<longleftrightarrow>
     status a = status b \<and>
     map_of (body a) ''shoe_type'' = map_of (body b) ''shoe_type'' \<and>
     map_of (body a) ''recommended_time_minutes'' = map_of (body b) ''recommended_time_minutes''"

lemma same_result_refl: "same_result a a"
  by (simp add: same_result_def)

lemma POST_structured_replying:
  "(fst (POST_structured (replying r) request) = fst (POST_structured (replying r') request) \<and>
      status (fst (POST_structured (replying r') request)) \<noteq> 200) \<or>
   (\<exists>f. fst (POST_structured (replying r) request) = fst (respond_structured f r) \<and>
        fst (POST_structured (replying r') request) = fst (respond_structured f r'))"
  by (auto simp: POST_defs Let_def case_prod_beta replying_def
       split: sum.splits option.splits FormDataEntryValue.splits if_splits)

lemma POST_cors_replying:
  "(fst (POST_cors (replying r) request) = fst (POST_cors (replying r') request) \<and>
      status (fst (POST_cors (replying r') request)) \<noteq> 200) \<or>
   (\<exists>f. fst (POST_cors (replying r) request) = fst (respond_cors f r) \<and>
        fst (POST_cors (replying r') request) = fst (respond_cors f r'))"
  by (auto simp: POST_defs Let_def case_prod_beta replying_def
       split: sum.splits option.splits FormDataEntryValue.splits if_splits)

lemma POST_context_replying:
  "(fst (POST_context (replying r) request) = fst (POST_context (replying r') request) \<and>
      status (fst (POST_context (replying r') request)) \<noteq> 200) \<or>
   (\<exists>f t h. fst (POST_context (replying r) request) = fst (respond_context f t h r) \<and>
        fst (POST_context (replying r') request) = fst (respond_context f t h r'))"
  by (auto simp: POST_defs Let_def case_prod_beta replying_def
       split: sum.splits option.splits FormDataEntryValue.splits if_splits)

lemma respond_same:
  assumes "generatedText r1 = Some t1" "generatedText r2 = Some t2" "t1 \<noteq> []" "t2 \<noteq> []"
    "analysisObject t1 = analysisObject t2"
  shows
    "same_result (fst (respond_structured f r1)) (fst (respond_structured f r2)) \<and>
     (status (fst (respond_structured f r2)) = 200 \<longrightarrow>
        fst (respond_structured f r1) = fst (respond_structured f r2))"
    "same_result (fst (respond_cors f r1)) (fst (respond_cors f r2)) \<and>
     (status (fst (respond_cors f r2)) = 200 \<longrightarrow>
        fst (respond_cors f r1) = fst (respond_cors f r2))"
    "same_result (fst (respond_context f t h r1)) (fst (respond_context f t h r2)) \<and>
     (status (fst (respond_context f t h r2)) = 200 \<longrightarrow>
        fst (respond_context f t h r1) = fst (respond_context f t h r2))"
  using assms
  by (auto simp: respond_defs same_result_def split: option.splits)

section \<open>Concrete inputs\<close>

text \<open>An upload of three bytes, a reply that carries one text, and the call the
  handlers make for that upload.\<close>

definition sample_file :: File where
  "sample_file =
     \<lparr>file_name = lit ''shoe.jpg'', file_size = 3, file_type = lit ''image/jpeg'',
      arrayBuffer = Inr [255, 216, 255]\<rparr>"

definition sample_request :: Request where
  "sample_request = \<lparr>formData = Inr [(lit ''file'', FileEntry sample_file)]\<rparr>"

definition text_reply :: "jsstring \<Rightarrow> GenerateContentResponse" where
  "text_reply t =
     \<lparr>candidates = Some [\<lparr>content = Some \<lparr>parts = Some [\<lparr>part_text = Some t\<rparr>]\<rparr>\<rparr>],
      promptFeedback = None\<rparr>"

definition sample_params :: GenerateContentParameters where
  "sample_params =
     \<lparr>model = lit ''gemini-2.5-flash'', prompt = PROMPT_structured,
      inlineData = \<lparr>data = [255, 216, 255], mimeType = lit ''image/jpeg''\<rparr>\<rparr>"

definition freetext_params :: GenerateContentParameters where
  "freetext_params =
     \<lparr>model = lit ''gemini-2.5-flash'', prompt = PROMPT_freetext,
      inlineData = \<lparr>data = [255, 216, 255], mimeType = lit ''image/jpeg''\<rparr>\<rparr>"

text \<open>Texts a provider may send.\<close>

definition valid_text :: jsstring where
  \<open>valid_text = lit ''{"shoe_type": "Sneaker, medium thickness", "recommended_time_minutes": 40}''\<close>

definition over_ceiling_text :: jsstring where
  \<open>over_ceiling_text = lit ''{"shoe_type": "Boot", "recommended_time_minutes": 120}''\<close>

definition number_label_text :: jsstring where
  \<open>number_label_text = lit ''{"shoe_type": 42, "recommended_time_minutes": 30}''\<close>

definition string_minutes_text :: jsstring where
  \<open>string_minutes_text = lit ''{"shoe_type": "Boot", "recommended_time_minutes": "40"}''\<close>

definition empty_label_text :: jsstring where
  \<open>empty_label_text = lit ''{"shoe_type": "", "recommended_time_minutes": 40}''\<close>

definition overflow_text :: jsstring where
  \<open>overflow_text = lit ''{"shoe_type": "Boot", "recommended_time_minutes": 1e400}''\<close>

definition underflow_label_text :: jsstring where
  \<open>underflow_label_text = lit '' {"shoe_type": 1e-400, "recommended_time_minutes": 30} ''\<close>

text \<open>Replies without a text, and requests that are turned away.\<close>

definition empty_blocked_reply :: GenerateContentResponse where
  "empty_blocked_reply =
     \<lparr>candidates = Some [\<lparr>content = Some \<lparr>parts = Some [\<lparr>part_text = Some []\<rparr>]\<rparr>\<rparr>],
      promptFeedback = Some \<lparr>blockReason = Some (lit ''SAFETY''), safetyRatings = None\<rparr>\<rparr>"

definition safety_feedback :: PromptFeedback where
  "safety_feedback =
     \<lparr>blockReason = Some (lit ''SAFETY''),
      safetyRatings =
        Some [\<lparr>category = lit ''HARM_CATEGORY_DANGEROUS_CONTENT'', probability = lit ''HIGH''\<rparr>]\<rparr>"

definition blocked_reply :: GenerateContentResponse where
  "blocked_reply = \<lparr>candidates = None, promptFeedback = Some safety_feedback\<rparr>"

definition text_upload_request :: Request where
  "text_upload_request = \<lparr>formData = Inr [(lit ''file'', StringEntry (lit ''shoe.jpg''))]\<rparr>"

definition context_request :: Request where
  "context_request =
     \<lparr>formData = Inr [(lit ''file'', FileEntry sample_file),
                      (lit ''temperature'', StringEntry (lit ''35'')),
                      (lit ''humidity'', StringEntry (lit ''80''))]\<rparr>"

definition silent_reply :: GenerateContentResponse where
  "silent_reply = \<lparr>candidates = Some [], promptFeedback = None\<rparr>"

definition bad_humidity_request :: Request where
  "bad_humidity_request =
     \<lparr>formData = Inr [(lit ''file'', FileEntry sample_file),
                      (lit ''temperature'', StringEntry (lit ''35'')),
                      (lit ''humidity'', StringEntry (lit ''wet''))]\<rparr>"

text \<open>A provider whose call fails.\<close>

definition failing :: "thrown \<Rightarrow> provider" where
  "failing e = (\<lambda>params. Inl e)"

subsection \<open>Evaluating the model on them\<close>

lemmas round_eval =
  decimal_value_def Number_value_def nearest_double_def binade_def round_half_even_def
  pow2_def compute_floorlog Let_def

lemmas json_eval =
  JSON_parse_def isJSONWhiteSpace_def isDigit_def lex_number_def lex_fraction_def
  lex_exponent_def lex_sign_def digits_val_def round_eval array_index_def key_before_def

lemmas clean_eval =
  cleanedText_def trim_def isWhiteSpace_def replace_opening_fence_def
  replace_closing_fence_def opening_fence_def closing_fence_def suffix_to_prefix

lemmas number_eval =
  StringToNumber_def StrUnsignedDecimalLiteral_def radix_literal_def lex_exponent_def
  lex_sign_def isDigit_def digits_val_def round_eval trim_def isWhiteSpace_def

lemma JSON_parse_examples:
  \<open>JSON_parse (lit '' [1, -2.5e1, true, null, {"a": {}, "b": [], "a": "x'' @ [0x5C] @ lit ''n'' @
       [0x5C] @ lit ''u0e23"}] '') =
     Some (JArray [JNumber (Finite 1), JNumber (Finite (- 25)), JBool True, JNull,
                   JObject [(lit ''a'', JString [0x78, 0x0A, 0x0E23]), (lit ''b'', JArray [])]])\<close>
  \<open>JSON_parse (lit ''{"b": 1, "10": 2, "9": 3, "01": 4}'') =
     Some (JObject [(lit ''9'', JNumber (Finite 3)), (lit ''10'', JNumber (Finite 2)),
                    (lit ''b'', JNumber (Finite 1)), (lit ''01'', JNumber (Finite 4))])\<close>
  \<open>JSON_parse (lit ''{"a": 1,}'') = None\<close>
  \<open>JSON_parse (lit ''[1 2]'') = None\<close>
  \<open>JSON_parse (lit ''01'') = None\<close>
  \<open>JSON_parse (lit ''25E-2'') = Some (JNumber (Finite (1 / 4)))\<close>
  \<open>JSON_parse (lit ''{"a": tru}'') = None\<close>
  \<open>JSON_parse (lit ''"open'') = None\<close>
  \<open>JSON_parse (lit ''{} {}'') = None\<close>
  by (simp_all add: lit_def json_eval unescape_def hexval_def)

text \<open>Rounding, overflow and underflow: \<open>2 ^ 53 + 1\<close> is read as \<open>2 ^ 53\<close>, a tenth as the
  double next to it, \<^verbatim>\<open>1e400\<close> as an infinity and \<^verbatim>\<open>1e-400\<close> as zero.\<close>

lemma JSON_parse_rounds:
  "JSON_parse (lit ''9007199254740993'') = Some (JNumber (Finite 9007199254740992))"
  "JSON_parse (lit ''0.1'') = Some (JNumber (Finite (3602879701896397 / 36028797018963968)))"
  "JSON_parse (lit ''-1e400'') = Some (JNumber NegInfinity)"
  "JSON_parse (lit ''1e-400'') = Some (JNumber (Finite 0))"
  by (simp_all add: lit_def json_eval)

lemma read_property_examples:
  \<open>read_property (JObject [(lit ''a'', JNumber (Finite 1))]) (lit ''a'') = Some (JNumber (Finite 1))\<close>
  \<open>read_property (JObject [(lit ''a'', JNumber (Finite 1))]) (lit ''b'') = None\<close>
  \<open>read_property (JArray []) (lit ''shoe_type'') = None\<close>
  by (simp_all add: lit_def)

lemma StringToNumber_examples:
  "StringToNumber (lit '' 35 '') = Finite 35"
  "StringToNumber (lit ''-1.5e1'') = Finite (- 15)"
  "StringToNumber (lit ''0x1F'') = Finite 31"
  "StringToNumber (lit ''.5'') = Finite (1 / 2)"
  "StringToNumber (lit ''5.'') = Finite 5"
  "StringToNumber (lit ''-Infinity'') = NegInfinity"
  "StringToNumber (lit ''1e309'') = PosInfinity"
  "StringToNumber (lit ''   '') = Finite 0"
  "StringToNumber (lit ''80%'') = NaN"
  "StringToNumber (lit ''1,5'') = NaN"
  "StringToNumber (lit ''-0x10'') = NaN"
  by (simp_all add: lit_def number_eval hexval_def)

lemma sample_file_fields:
  "file_name sample_file = lit ''shoe.jpg''" "file_size sample_file = 3"
  "file_type sample_file = lit ''image/jpeg''" "arrayBuffer sample_file = Inr [255, 216, 255]"
  by (simp_all add: sample_file_def)

lemma generatedText_text_reply [simp]: "generatedText (text_reply t) = Some t"
  by (simp add: generatedText_def first_candidate_def text_reply_def)

lemma POST_cors_sample:
  "POST_cors (replying r) sample_request =
     (fst (respond_cors sample_file r), Call sample_params # snd (respond_cors sample_file r))"
  by (simp add: POST_cors_def sample_request_def formData_get_def sample_file_def
      fileToGenerativePart_def replying_def sample_params_def case_prod_beta)

lemma POST_freetext_sample:
  "POST_freetext (replying r) sample_request =
     (fst (respond_freetext sample_file r),
      Call freetext_params # snd (respond_freetext sample_file r))"
  by (simp add: POST_freetext_def sample_request_def formData_get_def sample_file_def
      fileToGenerativePart_def replying_def freetext_params_def case_prod_beta)

lemma cleaned_over_ceiling: "cleanedText over_ceiling_text = over_ceiling_text"
  by (simp add: over_ceiling_text_def lit_def clean_eval)

lemma parse_over_ceiling:
  "JSON_parse over_ceiling_text =
     Some (JObject [(lit ''shoe_type'', JString (lit ''Boot'')),
                    (lit ''recommended_time_minutes'', JNumber (Finite 120))])"
  by (simp add: over_ceiling_text_def lit_def json_eval)

lemma analysis_over_ceiling:
  "analysisObject over_ceiling_text =
     Some (JObject [(lit ''shoe_type'', JString (lit ''Boot'')),
                    (lit ''recommended_time_minutes'', JNumber (Finite 120))])"
  by (simp add: analysisObject_def cleaned_over_ceiling parse_over_ceiling lit_def)

lemma over_ceiling_nonempty: "over_ceiling_text \<noteq> []"
  by (simp add: over_ceiling_text_def lit_def)

lemma parse_valid_text:
  "JSON_parse valid_text =
     Some (JObject [(lit ''shoe_type'', JString (lit ''Sneaker, medium thickness'')),
                    (lit ''recommended_time_minutes'', JNumber (Finite 40))])"
  by (simp add: valid_text_def lit_def json_eval)

lemma analysis_valid_text:
  "analysisObject valid_text =
     Some (JObject [(lit ''shoe_type'', JString (lit ''Sneaker, medium thickness'')),
                    (lit ''recommended_time_minutes'', JNumber (Finite 40))])"
proof -
  have "cleanedText valid_text = valid_text"
    by (simp add: valid_text_def lit_def clean_eval)
  then show ?thesis
    by (simp add: analysisObject_def parse_valid_text lit_def)
qed

lemma analysis_overflow:
  "analysisObject overflow_text =
     Some (JObject [(lit ''shoe_type'', JString (lit ''Boot'')),
                    (lit ''recommended_time_minutes'', JNumber PosInfinity)])"
proof -
  have c: "cleanedText overflow_text = overflow_text"
    by (simp add: overflow_text_def lit_def clean_eval)
  have p: "JSON_parse overflow_text =
     Some (JObject [(lit ''shoe_type'', JString (lit ''Boot'')),
                    (lit ''recommended_time_minutes'', JNumber PosInfinity)])"
    by (simp add: overflow_text_def lit_def json_eval)
  show ?thesis
    by (simp add: analysisObject_def c p lit_def)
qed

lemma parse_underflow_label:
  "JSON_parse (cleanedText underflow_label_text) =
     Some (JObject [(lit ''shoe_type'', JNumber (Finite 0)),
                    (lit ''recommended_time_minutes'', JNumber (Finite 30))])"
  by (simp add: underflow_label_text_def lit_def clean_eval json_eval)

section \<open>The claims\<close>

subsection \<open>C1: the minutes of a successful response\<close>

text \<open>
  C1 says that the \<^verbatim>\<open>recommended_time_minutes\<close> of every 200 response is at most 60. The
  handlers ask the provider for that in the prompt and check only that the value is a
  number: a reply of 120 comes back with status 200 and 120 in the body that is sent.
\<close>

theorem C1_counterexample:
  "status (fst (POST_cors (replying (text_reply over_ceiling_text)) sample_request)) = 200 \<and>
   map_of (sent_body (fst (POST_cors (replying (text_reply over_ceiling_text)) sample_request)))
     ''recommended_time_minutes'' = Some (FJson (Some (JNumber (Finite 120)))) \<and>
   \<not> (120 :: rat) \<le> 60"
  by (simp add: POST_cors_sample respond_cors_def over_ceiling_nonempty analysis_over_ceiling
      sent_body_def List.map_filter_simps lit_def)

text \<open>
  C1, as the code has it: when a structured handler answers 200, the provider was called,
  its reply carried a text, and the \<^verbatim>\<open>recommended_time_minutes\<close> that is sent is the
  double \<^verbatim>\<open>JSON.parse\<close> read under that name from the cleaned text, as \<^verbatim>\<open>JSON.stringify\<close>
  writes it: the number itself when it is finite, whatever its size, and \<^verbatim>\<open>null\<close> when
  the literal was too large for a double.
\<close>

theorem success_minutes_are_the_parsed_number:
  assumes "POST \<in> {POST_structured, POST_cors, POST_context}"
    and "status (fst (POST g request)) = 200"
  shows "\<exists>p response t obj x.
           Call p \<in> set (snd (POST g request)) \<and> g p = Inr response \<and>
           generatedText response = Some t \<and>
           JSON_parse (cleanedText t) = Some obj \<and>
           read_property obj (lit ''recommended_time_minutes'') = Some (JNumber x) \<and>
           map_of (sent_body (fst (POST g request))) ''recommended_time_minutes'' =
             Some (FJson (Some (case x of Finite r \<Rightarrow> JNumber x | _ \<Rightarrow> JNull)))"
proof -
  have "\<exists>p response tx obj x. Call p \<in> set (snd (POST g request)) \<and> g p = Inr response \<and>
      generatedText response = Some tx \<and> analysisObject tx = Some obj \<and>
      read_property obj (lit ''recommended_time_minutes'') = Some (JNumber x) \<and>
      map_of (sent_body (fst (POST g request))) ''recommended_time_minutes'' =
        Some (FJson (Some (case x of Finite r \<Rightarrow> JNumber x | _ \<Rightarrow> JNull)))"
  proof -
    consider "POST = POST_structured" | "POST = POST_cors" | "POST = POST_context"
      using assms(1) by auto
    then show ?thesis
    proof cases
      case 1
      with assms(2) POST_structured_200[of g request] respond_structured_200_sent show ?thesis
        by metis
    next
      case 2
      with assms(2) POST_cors_200[of g request] respond_cors_200_sent show ?thesis
        by metis
    next
      case 3
      with assms(2) POST_context_200[of g request] respond_context_200_sent show ?thesis
        by metis
    qed
  qed
  then obtain p response tx obj x where
    a: "Call p \<in> set (snd (POST g request))" "g p = Inr response"
       "generatedText response = Some tx" "analysisObject tx = Some obj"
       "read_property obj (lit ''recommended_time_minutes'') = Some (JNumber x)"
       "map_of (sent_body (fst (POST g request))) ''recommended_time_minutes'' =
          Some (FJson (Some (case x of Finite r \<Rightarrow> JNumber x | _ \<Rightarrow> JNull)))"
    by blast
  from a(4) have "JSON_parse (cleanedText tx) = Some obj"
    by (simp add: analysisObject_Some)
  with a show ?thesis by blast
qed

text \<open>Minutes of \<^verbatim>\<open>1e400\<close> are read as an infinity, pass the test and are sent as
  \<^verbatim>\<open>null\<close>.\<close>

theorem success_minutes_are_the_parsed_number_witness:
  "POST_cors \<in> {POST_structured, POST_cors, POST_context} \<and>
   status (fst (POST_cors (replying (text_reply overflow_text)) sample_request)) = 200 \<and>
   JSON_parse (cleanedText overflow_text) =
     Some (JObject [(lit ''shoe_type'', JString (lit ''Boot'')),
                    (lit ''recommended_time_minutes'', JNumber PosInfinity)]) \<and>
   (\<exists>p response t obj x.
      Call p \<in> set (snd (POST_cors (replying (text_reply overflow_text)) sample_request)) \<and>
      replying (text_reply overflow_text) p = Inr response \<and>
      generatedText response = Some t \<and>
      JSON_parse (cleanedText t) = Some obj \<and>
      read_property obj (lit ''recommended_time_minutes'') = Some (JNumber x) \<and>
      map_of (sent_body (fst (POST_cors (replying (text_reply overflow_text)) sample_request)))
        ''recommended_time_minutes'' =
          Some (FJson (Some (case x of Finite r \<Rightarrow> JNumber x | _ \<Rightarrow> JNull)))) \<and>
   map_of (sent_body (fst (POST_cors (replying (text_reply overflow_text)) sample_request)))
     ''recommended_time_minutes'' = Some (FJson (Some JNull))"
proof -
  have n: "overflow_text \<noteq> []" by (simp add: overflow_text_def lit_def)
  have s: "status (fst (POST_cors (replying (text_reply overflow_text)) sample_request)) = 200"
    by (simp add: POST_cors_sample respond_cors_def n analysis_overflow)
  have m: "POST_cors \<in> {POST_structured, POST_cors, POST_context}" by simp
  have j: "JSON_parse (cleanedText overflow_text) =
     Some (JObject [(lit ''shoe_type'', JString (lit ''Boot'')),
                    (lit ''recommended_time_minutes'', JNumber PosInfinity)])"
    using analysis_overflow by (simp add: analysisObject_Some)
  have b: "map_of (sent_body (fst (POST_cors (replying (text_reply overflow_text)) sample_request)))
     ''recommended_time_minutes'' = Some (FJson (Some JNull))"
    by (simp add: POST_cors_sample respond_cors_def n analysis_overflow
        sent_body_def List.map_filter_simps lit_def)
  from success_minutes_are_the_parsed_number[OF m s] s m j b show ?thesis by blast
qed

subsection \<open>C2: a fence around a valid text changes nothing\<close>

text \<open>
  C2: let \<open>t\<close> be a text that \<^verbatim>\<open>JSON.parse\<close> reads as an object. Wrapping it as the
  opening fence, white space, \<open>t\<close>, white space and the closing fence gives the same
  outcome of the \<^verbatim>\<open>try\<close> block, and for every request the two replies get the same status,
  the same \<^verbatim>\<open>shoe_type\<close> and the same \<^verbatim>\<open>recommended_time_minutes\<close>; when the plain text is
  answered with 200, the two responses are equal. The white space is any run of the
  code units \<^verbatim>\<open>\s\<close> matches, the empty run included.
\<close>

theorem fenced_text_same_result:
  assumes "JSON_parse t = Some (JObject ms)"
    and "list_all isWhiteSpace ws1" and "list_all isWhiteSpace ws2"
    and "POST \<in> {POST_structured, POST_cors, POST_context}"
    and "generatedText fenced = Some (opening_fence @ ws1 @ t @ ws2 @ closing_fence)"
    and "generatedText plain = Some t"
  shows "analysisObject (opening_fence @ ws1 @ t @ ws2 @ closing_fence) = analysisObject t \<and>
         same_result (fst (POST (replying fenced) request)) (fst (POST (replying plain) request)) \<and>
         (status (fst (POST (replying plain) request)) = 200 \<longrightarrow>
            fst (POST (replying fenced) request) = fst (POST (replying plain) request))"
proof -
  let ?w = "opening_fence @ ws1 @ t @ ws2 @ closing_fence"
  have a: "analysisObject ?w = analysisObject t"
    by (simp add: analysisObject_def cleanedText_wrapped[OF assms(1-3)])
  have w: "?w \<noteq> []" by (simp add: opening_fence_def)
  have t: "t \<noteq> []" using assms(1) by (auto simp: JSON_parse_def)
  note same = respond_same[OF assms(5,6) w t a]
  consider "POST = POST_structured" | "POST = POST_cors" | "POST = POST_context"
    using assms(4) by auto
  then have "same_result (fst (POST (replying fenced) request)) (fst (POST (replying plain) request)) \<and>
         (status (fst (POST (replying plain) request)) = 200 \<longrightarrow>
            fst (POST (replying fenced) request) = fst (POST (replying plain) request))"
  proof cases
    case 1
    with POST_structured_replying[of fenced request plain] same(1) show ?thesis
      by (auto simp: same_result_refl)
  next
    case 2
    with POST_cors_replying[of fenced request plain] same(2) show ?thesis
      by (auto simp: same_result_refl)
  next
    case 3
    with POST_context_replying[of fenced request plain] same(3) show ?thesis
      by (auto simp: same_result_refl)
  qed
  with a show ?thesis by simp
qed

text \<open>The scenario text of the specification, fenced with line feeds.\<close>

theorem fenced_text_same_result_witness:
  "JSON_parse valid_text =
     Some (JObject [(lit ''shoe_type'', JString (lit ''Sneaker, medium thickness'')),
                    (lit ''recommended_time_minutes'', JNumber (Finite 40))]) \<and>
   list_all isWhiteSpace [0x0A] \<and> list_all isWhiteSpace [0x0A] \<and>
   POST_cors \<in> {POST_structured, POST_cors, POST_context} \<and>
   status (fst (POST_cors (replying (text_reply valid_text)) sample_request)) = 200 \<and>
   analysisObject (opening_fence @ [0x0A] @ valid_text @ [0x0A] @ closing_fence) =
     analysisObject valid_text \<and>
   fst (POST_cors (replying (text_reply (opening_fence @ [0x0A] @ valid_text @ [0x0A] @ closing_fence)))
          sample_request) =
     fst (POST_cors (replying (text_reply valid_text)) sample_request)"
proof -
  have w: "list_all isWhiteSpace [0x0A]" by (simp add: isWhiteSpace_def)
  have m: "POST_cors \<in> {POST_structured, POST_cors, POST_context}" by simp
  have c: "cleanedText valid_text = valid_text"
    by (simp add: valid_text_def lit_def clean_eval)
  have n: "valid_text \<noteq> []" by (simp add: valid_text_def lit_def)
  have s: "status (fst (POST_cors (replying (text_reply valid_text)) sample_request)) = 200"
    by (simp add: POST_cors_sample respond_cors_def n analysisObject_def c parse_valid_text lit_def)
  from fenced_text_same_result[OF parse_valid_text w w m generatedText_text_reply
      generatedText_text_reply, of sample_request] s parse_valid_text w m
  show ?thesis by simp
qed

subsection \<open>C3: a text that cannot be normalised comes back unchanged\<close>

text \<open>
  C3 speaks of every reply whose text is present. The handlers test the text for
  truthiness, so a text that is present and empty is treated as no text at all: with a
  block reason beside it the answer is 403, not 500.
\<close>

theorem C3_counterexample:
  "generatedText empty_blocked_reply = Some [] \<and>
   JSON_parse (cleanedText []) = None \<and>
   status (fst (POST_cors (replying empty_blocked_reply) sample_request)) = 403"
  by (simp add: JSON_parse_empty POST_cors_sample respond_cors_def no_text_cors_def blocked_def
      generatedText_def first_candidate_def empty_blocked_reply_def lit_def)

text \<open>
  C3, as the code has it: when the text of the reply is not empty and the cleaned text
  either is not JSON, or is JSON whose \<^verbatim>\<open>shoe_type\<close> is missing or falsy or whose
  \<^verbatim>\<open>recommended_time_minutes\<close> is not a number, a structured handler answers 500 and
  \<^verbatim>\<open>gemini_raw_output\<close> is the text of the reply, code unit for code unit: not the
  trimmed text and not the cleaned one.
\<close>

theorem unparsed_text_comes_back_unchanged:
  assumes "POST \<in> {POST_structured, POST_cors, POST_context}"
    and "Call p \<in> set (snd (POST g request))" and "g p = Inr response"
    and "generatedText response = Some t" and "t \<noteq> []"
    and "JSON_parse (cleanedText t) = None \<or>
         (\<exists>v. JSON_parse (cleanedText t) = Some v \<and>
              (\<not> ToBoolean (read_property v (lit ''shoe_type'')) \<or>
               typeof (read_property v (lit ''recommended_time_minutes'')) \<noteq> TNumberType))"
  shows "status (fst (POST g request)) = 500 \<and>
         map_of (body (fst (POST g request))) ''gemini_raw_output'' = Some (FStr t)"
proof -
  from assms(6) have "analysisObject t = None"
    by (auto simp: analysisObject_def)
  from analysis_failure_response[OF assms(1-5) this] show ?thesis .
qed

text \<open>A label of \<^verbatim>\<open>1e-400\<close> is read as zero, which is falsy; the text comes back with the
  blank on either side of it.\<close>

theorem unparsed_text_comes_back_unchanged_witness:
  "POST_cors \<in> {POST_structured, POST_cors, POST_context} \<and>
   Call sample_params \<in>
     set (snd (POST_cors (replying (text_reply underflow_label_text)) sample_request)) \<and>
   replying (text_reply underflow_label_text) sample_params = Inr (text_reply underflow_label_text) \<and>
   generatedText (text_reply underflow_label_text) = Some underflow_label_text \<and>
   underflow_label_text \<noteq> [] \<and>
   JSON_parse (cleanedText underflow_label_text) =
     Some (JObject [(lit ''shoe_type'', JNumber (Finite 0)),
                    (lit ''recommended_time_minutes'', JNumber (Finite 30))]) \<and>
   \<not> ToBoolean (read_property
        (JObject [(lit ''shoe_type'', JNumber (Finite 0)),
                  (lit ''recommended_time_minutes'', JNumber (Finite 30))]) (lit ''shoe_type'')) \<and>
   status (fst (POST_cors (replying (text_reply underflow_label_text)) sample_request)) = 500 \<and>
   map_of (body (fst (POST_cors (replying (text_reply underflow_label_text)) sample_request)))
     ''gemini_raw_output'' = Some (FStr underflow_label_text)"
proof -
  let ?v = "JObject [(lit ''shoe_type'', JNumber (Finite 0)),
                     (lit ''recommended_time_minutes'', JNumber (Finite 30))]"
  have m: "POST_cors \<in> {POST_structured, POST_cors, POST_context}" by simp
  have c: "Call sample_params \<in>
     set (snd (POST_cors (replying (text_reply underflow_label_text)) sample_request))"
    by (simp add: POST_cors_sample)
  have r: "replying (text_reply underflow_label_text) sample_params =
           Inr (text_reply underflow_label_text)"
    by (simp add: replying_def)
  have n: "underflow_label_text \<noteq> []" by (simp add: underflow_label_text_def lit_def)
  have f: "\<not> ToBoolean (read_property ?v (lit ''shoe_type''))" by simp
  have d: "JSON_parse (cleanedText underflow_label_text) = None \<or>
         (\<exists>v. JSON_parse (cleanedText underflow_label_text) = Some v \<and>
              (\<not> ToBoolean (read_property v (lit ''shoe_type'')) \<or>
               typeof (read_property v (lit ''recommended_time_minutes'')) \<noteq> TNumberType))"
    using parse_underflow_label f by blast
  from unparsed_text_comes_back_unchanged[OF m c r generatedText_text_reply n d]
    m c r n parse_underflow_label f
  show ?thesis by simp
qed

subsection \<open>C4: a label that is not a string\<close>

text \<open>
  C4 says that a \<^verbatim>\<open>shoe_type\<close> that is present and not a string gives a server error.
  The handlers declare \<^verbatim>\<open>shoe_type: string\<close> and throw "missing required fields or has
  incorrect type", yet test the label with \<^verbatim>\<open>!analysisObject.shoe_type\<close> only, where the
  minutes are tested with \<^verbatim>\<open>typeof\<close>: the number 42 is truthy, and the answer is 200 with
  \<^verbatim>\<open>shoe_type\<close> 42.
\<close>

theorem number_label_is_accepted:
  "JSON_parse (cleanedText number_label_text) =
     Some (JObject [(lit ''shoe_type'', JNumber (Finite 42)),
                    (lit ''recommended_time_minutes'', JNumber (Finite 30))]) \<and>
   status (fst (POST_cors (replying (text_reply number_label_text)) sample_request)) = 200 \<and>
   map_of (body (fst (POST_cors (replying (text_reply number_label_text)) sample_request)))
     ''shoe_type'' = Some (FJson (Some (JNumber (Finite 42))))"
proof -
  have c: "cleanedText number_label_text = number_label_text"
    by (simp add: number_label_text_def lit_def clean_eval)
  have p: "JSON_parse number_label_text =
     Some (JObject [(lit ''shoe_type'', JNumber (Finite 42)),
                    (lit ''recommended_time_minutes'', JNumber (Finite 30))])"
    by (simp add: number_label_text_def lit_def json_eval)
  have n: "number_label_text \<noteq> []" by (simp add: number_label_text_def lit_def)
  show ?thesis
    by (simp add: c p n POST_cors_sample respond_cors_def analysisObject_def lit_def)
qed

subsection \<open>C5: minutes given as a string\<close>

text \<open>
  C5: when the cleaned text of the reply parses and its \<^verbatim>\<open>recommended_time_minutes\<close> is a
  string, a structured handler answers 500 with the text of the reply as
  \<^verbatim>\<open>gemini_raw_output\<close>; so it does not answer 200, and no number is made of the string.
\<close>

theorem string_minutes_rejected:
  assumes "POST \<in> {POST_structured, POST_cors, POST_context}"
    and "Call p \<in> set (snd (POST g request))" and "g p = Inr response"
    and "generatedText response = Some t"
    and "JSON_parse (cleanedText t) = Some v"
    and "read_property v (lit ''recommended_time_minutes'') = Some (JString s)"
  shows "status (fst (POST g request)) = 500 \<and>
         map_of (body (fst (POST g request))) ''gemini_raw_output'' = Some (FStr t)"
proof -
  have "analysisObject t = None"
    using assms(5,6) by (simp add: analysisObject_def)
  from analysis_failure_response[OF assms(1-4) parsed_text_nonempty[OF assms(5)] this]
  show ?thesis .
qed

text \<open>The minutes \<^verbatim>\<open>"40"\<close>.\<close>

theorem string_minutes_rejected_witness:
  "POST_cors \<in> {POST_structured, POST_cors, POST_context} \<and>
   Call sample_params \<in> set (snd (POST_cors (replying (text_reply string_minutes_text)) sample_request)) \<and>
   replying (text_reply string_minutes_text) sample_params = Inr (text_reply string_minutes_text) \<and>
   generatedText (text_reply string_minutes_text) = Some string_minutes_text \<and>
   JSON_parse (cleanedText string_minutes_text) =
     Some (JObject [(lit ''shoe_type'', JString (lit ''Boot'')),
                    (lit ''recommended_time_minutes'', JString (lit ''40''))]) \<and>
   read_property (JObject [(lit ''shoe_type'', JString (lit ''Boot'')),
                    (lit ''recommended_time_minutes'', JString (lit ''40''))])
     (lit ''recommended_time_minutes'') = Some (JString (lit ''40'')) \<and>
   status (fst (POST_cors (replying (text_reply string_minutes_text)) sample_request)) = 500 \<and>
   map_of (body (fst (POST_cors (replying (text_reply string_minutes_text)) sample_request)))
     ''gemini_raw_output'' = Some (FStr string_minutes_text)"
proof -
  have m: "POST_cors \<in> {POST_structured, POST_cors, POST_context}" by simp
  have c: "Call sample_params \<in> set (snd (POST_cors (replying (text_reply string_minutes_text)) sample_request))"
    by (simp add: POST_cors_sample)
  have r: "replying (text_reply string_minutes_text) sample_params = Inr (text_reply string_minutes_text)"
    by (simp add: replying_def)
  have j: "JSON_parse (cleanedText string_minutes_text) =
     Some (JObject [(lit ''shoe_type'', JString (lit ''Boot'')),
                    (lit ''recommended_time_minutes'', JString (lit ''40''))])"
    by (simp add: string_minutes_text_def lit_def clean_eval json_eval)
  have q: "read_property (JObject [(lit ''shoe_type'', JString (lit ''Boot'')),
                    (lit ''recommended_time_minutes'', JString (lit ''40''))])
     (lit ''recommended_time_minutes'') = Some (JString (lit ''40''))"
    by (simp add: lit_def)
  from string_minutes_rejected[OF m c r generatedText_text_reply j q] m c r j q
  show ?thesis by simp
qed

subsection \<open>C6: the two readings are not optional\<close>

text \<open>
  C6 says that the context-aware handler accepts a request with an image and neither
  \<^verbatim>\<open>temperature\<close> nor \<^verbatim>\<open>humidity\<close>. It tests both for \<^verbatim>\<open>undefined\<close> and turns such a
  request away with status 400.
\<close>

theorem C6_counterexample:
  "formData sample_request = Inr [(lit ''file'', FileEntry sample_file)] \<and>
   file_size sample_file = 3 \<and>
   formData_get [(lit ''file'', FileEntry sample_file)] (lit ''temperature'') = None \<and>
   formData_get [(lit ''file'', FileEntry sample_file)] (lit ''humidity'') = None \<and>
   status (fst (POST_context (replying (text_reply valid_text)) sample_request)) = 400 \<and>
   map_of (body (fst (POST_context (replying (text_reply valid_text)) sample_request))) ''error'' =
     Some (FStr (lit ''Missing or invalid humidity/temperature. Both must be numeric.''))"
  by (simp add: POST_context_def sample_request_def formData_get_def sample_file_def
      missing_numbers_def lit_def)

text \<open>
  C6, as the code has it: a request with a non-empty image and neither \<^verbatim>\<open>temperature\<close>
  nor \<^verbatim>\<open>humidity\<close> is answered 400 with the message that both are required, and the
  provider is not called.
\<close>

theorem numbers_are_required:
  assumes "formData request = Inr fd"
    and "formData_get fd (lit ''file'') = Some (FileEntry imageFile)"
    and "file_size imageFile \<noteq> 0"
    and "formData_get fd (lit ''temperature'') = None"
    and "formData_get fd (lit ''humidity'') = None"
  shows "POST_context g request =
           (NextResponse_json
              [(''error'', FStr (lit ''Missing or invalid humidity/temperature. Both must be numeric.''))]
              400 corsHeaders,
            [])"
  using assms by (simp add: POST_context_def missing_numbers_def)

text \<open>The upload alone.\<close>

theorem numbers_are_required_witness:
  "formData sample_request = Inr [(lit ''file'', FileEntry sample_file)] \<and>
   formData_get [(lit ''file'', FileEntry sample_file)] (lit ''file'') = Some (FileEntry sample_file) \<and>
   file_size sample_file \<noteq> 0 \<and>
   formData_get [(lit ''file'', FileEntry sample_file)] (lit ''temperature'') = None \<and>
   formData_get [(lit ''file'', FileEntry sample_file)] (lit ''humidity'') = None \<and>
   POST_context (replying (text_reply valid_text)) sample_request =
     (NextResponse_json
        [(''error'', FStr (lit ''Missing or invalid humidity/temperature. Both must be numeric.''))]
        400 corsHeaders,
      [])"
proof -
  have a: "formData sample_request = Inr [(lit ''file'', FileEntry sample_file)]"
    by (simp add: sample_request_def)
  have b: "formData_get [(lit ''file'', FileEntry sample_file)] (lit ''file'') = Some (FileEntry sample_file)"
    by (simp add: formData_get_def)
  have c: "file_size sample_file \<noteq> 0" by (simp add: sample_file_def)
  have d: "formData_get [(lit ''file'', FileEntry sample_file)] (lit ''temperature'') = None"
    by (simp add: formData_get_def lit_def)
  have e: "formData_get [(lit ''file'', FileEntry sample_file)] (lit ''humidity'') = None"
    by (simp add: formData_get_def lit_def)
  from numbers_are_required[OF a b c d e, of "replying (text_reply valid_text)"] a b c d e
  show ?thesis by simp
qed

subsection \<open>C7: one reading, or a reading that is not a number\<close>

text \<open>
  C7: in the context-aware handler, a request with a non-empty image where exactly one of
  \<^verbatim>\<open>temperature\<close> and \<^verbatim>\<open>humidity\<close> is present, or where \<^verbatim>\<open>Number\<close> of either value is
  NaN, is answered 400 with a message that names both fields as required; nothing else
  happens.
\<close>

theorem one_or_bad_number_rejected:
  assumes "formData request = Inr fd"
    and "formData_get fd (lit ''file'') = Some (FileEntry imageFile)"
    and "file_size imageFile \<noteq> 0"
    and "(formData_get fd (lit ''temperature'') = None \<and> formData_get fd (lit ''humidity'') \<noteq> None) \<or>
         (formData_get fd (lit ''temperature'') \<noteq> None \<and> formData_get fd (lit ''humidity'') = None) \<or>
         (\<exists>e. formData_get fd (lit ''temperature'') = Some e \<and> isNaN (Number_of e)) \<or>
         (\<exists>e. formData_get fd (lit ''humidity'') = Some e \<and> isNaN (Number_of e))"
  shows "status (fst (POST_context g request)) = 400 \<and>
         map_of (body (fst (POST_context g request))) ''error'' =
           Some (FStr (lit ''Missing or invalid humidity/temperature. Both must be numeric.'')) \<and>
         snd (POST_context g request) = []"
proof -
  have n: "optional_Number (Some e) = Some x \<Longrightarrow> x = Number_of e" for e x
    by (cases e) (auto split: if_splits)
  have "optional_Number (formData_get fd (lit ''humidity'')) = None \<or>
        optional_Number (formData_get fd (lit ''temperature'')) = None \<or>
        (\<exists>h t. optional_Number (formData_get fd (lit ''humidity'')) = Some h \<and>
               optional_Number (formData_get fd (lit ''temperature'')) = Some t \<and>
               (isNaN h \<or> isNaN t))"
    using assms(4) n
    by (cases "optional_Number (formData_get fd (lit ''humidity''))";
        cases "optional_Number (formData_get fd (lit ''temperature''))") auto
  then show ?thesis
    using assms(1-3)
    by (auto simp: POST_context_def missing_numbers_def split: option.splits)
qed

text \<open>A temperature of 35 and a humidity of \<^verbatim>\<open>wet\<close>.\<close>

theorem one_or_bad_number_rejected_witness:
  "formData bad_humidity_request =
     Inr [(lit ''file'', FileEntry sample_file),
          (lit ''temperature'', StringEntry (lit ''35'')),
          (lit ''humidity'', StringEntry (lit ''wet''))] \<and>
   file_size sample_file \<noteq> 0 \<and>
   isNaN (Number_of (StringEntry (lit ''wet''))) \<and>
   Number_of (StringEntry (lit ''35'')) = Finite 35 \<and>
   status (fst (POST_context (replying (text_reply valid_text)) bad_humidity_request)) = 400 \<and>
   map_of (body (fst (POST_context (replying (text_reply valid_text)) bad_humidity_request))) ''error'' =
     Some (FStr (lit ''Missing or invalid humidity/temperature. Both must be numeric.'')) \<and>
   snd (POST_context (replying (text_reply valid_text)) bad_humidity_request) = []"
proof -
  let ?fd = "[(lit ''file'', FileEntry sample_file),
          (lit ''temperature'', StringEntry (lit ''35'')),
          (lit ''humidity'', StringEntry (lit ''wet''))]"
  have a: "formData bad_humidity_request = Inr ?fd"
    by (simp add: bad_humidity_request_def)
  have b: "formData_get ?fd (lit ''file'') = Some (FileEntry sample_file)"
    by (simp add: formData_get_def)
  have c: "file_size sample_file \<noteq> 0" by (simp add: sample_file_def)
  have w: "isNaN (Number_of (StringEntry (lit ''wet'')))"
    by (simp add: isNaN_def lit_def number_eval)
  have t: "Number_of (StringEntry (lit ''35'')) = Finite 35"
    by (simp add: lit_def number_eval)
  have h: "formData_get ?fd (lit ''humidity'') = Some (StringEntry (lit ''wet''))"
    by (simp add: formData_get_def lit_def)
  have d: "(formData_get ?fd (lit ''temperature'') = None \<and> formData_get ?fd (lit ''humidity'') \<noteq> None) \<or>
         (formData_get ?fd (lit ''temperature'') \<noteq> None \<and> formData_get ?fd (lit ''humidity'') = None) \<or>
         (\<exists>e. formData_get ?fd (lit ''temperature'') = Some e \<and> isNaN (Number_of e)) \<or>
         (\<exists>e. formData_get ?fd (lit ''humidity'') = Some e \<and> isNaN (Number_of e))"
    using h w by blast
  from one_or_bad_number_rejected[OF a b c d, of "replying (text_reply valid_text)"] a c w t
  show ?thesis by simp
qed

subsection \<open>C8: a blocked prompt\<close>

text \<open>
  C8: when the reply has no text (or an empty one) and its prompt feedback carries a block
  reason, each of the four handlers answers 403; the \<^verbatim>\<open>error\<close> of the body is the
  handler's introduction followed by the reason as it came, and \<^verbatim>\<open>safety_ratings\<close> is the
  feedback's \<^verbatim>\<open>safetyRatings\<close>. A block reason is one of the provider's enumerated names,
  none of which is the empty string.
\<close>

theorem block_reason_gives_403:
  assumes "(POST, intro) \<in>
             {(POST_freetext, lit ''Content was blocked due to safety settings: ''),
              (POST_structured, lit ''Content was blocked due to safety settings: ''),
              (POST_cors, lit ''Content was blocked due to safety settings: ''),
              (POST_context, lit ''Content blocked due to safety settings: '')}"
    and "Call p \<in> set (snd (POST g request))" and "g p = Inr response"
    and "generatedText response = None \<or> generatedText response = Some []"
    and "promptFeedback response = Some feedback"
    and "blockReason feedback = Some reason" and "reason \<noteq> []"
  shows "status (fst (POST g request)) = 403 \<and>
         map_of (body (fst (POST g request))) ''error'' = Some (FStr (intro @ reason)) \<and>
         map_of (body (fst (POST g request))) ''safety_ratings'' =
           Some (FRatings (safetyRatings feedback))"
proof -
  note b = respond_blocked[OF assms(4-7)]
  consider "POST = POST_freetext" "intro = lit ''Content was blocked due to safety settings: ''"
    | "POST = POST_structured" "intro = lit ''Content was blocked due to safety settings: ''"
    | "POST = POST_cors" "intro = lit ''Content was blocked due to safety settings: ''"
    | "POST = POST_context" "intro = lit ''Content blocked due to safety settings: ''"
    using assms(1) by auto
  then show ?thesis
  proof cases
    case 1
    with POST_freetext_reply[of p g request response] assms(2,3) b(1) show ?thesis by auto
  next
    case 2
    with POST_structured_reply[of p g request response] assms(2,3) b(2) show ?thesis by auto
  next
    case 3
    with POST_cors_reply[of p g request response] assms(2,3) b(3) show ?thesis by auto
  next
    case 4
    with POST_context_reply[of p g request response] assms(2,3) b(4) show ?thesis by auto
  qed
qed

text \<open>A reply without candidates, blocked for \<^verbatim>\<open>SAFETY\<close>.\<close>

theorem block_reason_gives_403_witness:
  "Call freetext_params \<in> set (snd (POST_freetext (replying blocked_reply) sample_request)) \<and>
   replying blocked_reply freetext_params = Inr blocked_reply \<and>
   generatedText blocked_reply = None \<and>
   promptFeedback blocked_reply = Some safety_feedback \<and>
   blockReason safety_feedback = Some (lit ''SAFETY'') \<and> lit ''SAFETY'' \<noteq> [] \<and>
   status (fst (POST_freetext (replying blocked_reply) sample_request)) = 403 \<and>
   map_of (body (fst (POST_freetext (replying blocked_reply) sample_request))) ''error'' =
     Some (FStr (lit ''Content was blocked due to safety settings: SAFETY'')) \<and>
   map_of (body (fst (POST_freetext (replying blocked_reply) sample_request))) ''safety_ratings'' =
     Some (FRatings (Some [\<lparr>category = lit ''HARM_CATEGORY_DANGEROUS_CONTENT'',
                             probability = lit ''HIGH''\<rparr>]))"
proof -
  have m: "(POST_freetext, lit ''Content was blocked due to safety settings: '') \<in>
             {(POST_freetext, lit ''Content was blocked due to safety settings: ''),
              (POST_structured, lit ''Content was blocked due to safety settings: ''),
              (POST_cors, lit ''Content was blocked due to safety settings: ''),
              (POST_context, lit ''Content blocked due to safety settings: '')}"
    by simp
  have c: "Call freetext_params \<in> set (snd (POST_freetext (replying blocked_reply) sample_request))"
    by (simp add: POST_freetext_sample)
  have r: "replying blocked_reply freetext_params = Inr blocked_reply"
    by (simp add: replying_def)
  have t: "generatedText blocked_reply = None"
    by (simp add: generatedText_def first_candidate_def blocked_reply_def)
  have t': "generatedText blocked_reply = None \<or> generatedText blocked_reply = Some []"
    using t by simp
  have f: "promptFeedback blocked_reply = Some safety_feedback"
    by (simp add: blocked_reply_def)
  have b: "blockReason safety_feedback = Some (lit ''SAFETY'')"
    by (simp add: safety_feedback_def)
  have n: "lit ''SAFETY'' \<noteq> []" by (simp add: lit_def)
  have s: "safetyRatings safety_feedback =
     Some [\<lparr>category = lit ''HARM_CATEGORY_DANGEROUS_CONTENT'', probability = lit ''HIGH''\<rparr>]"
    by (simp add: safety_feedback_def)
  have a: "lit ''Content was blocked due to safety settings: '' @ lit ''SAFETY'' =
           lit ''Content was blocked due to safety settings: SAFETY''"
    by (simp add: lit_def)
  from block_reason_gives_403[OF m c r t' f b n] c r t f b n s a
  show ?thesis by simp
qed

subsection \<open>C9: no usable upload\<close>

text \<open>
  C9: when the field \<^verbatim>\<open>file\<close> of the form is absent, is a string, or is a file of size
  zero, each of the four handlers answers 400 with a body that is one \<^verbatim>\<open>error\<close> message,
  and has no effect at all: the provider is not called.
\<close>

theorem missing_upload_gives_400:
  assumes "POST \<in> {POST_freetext, POST_structured, POST_cors, POST_context}"
    and "formData request = Inr fd"
    and "formData_get fd (lit ''file'') = None \<or>
         (\<exists>s. formData_get fd (lit ''file'') = Some (StringEntry s)) \<or>
         (\<exists>f. formData_get fd (lit ''file'') = Some (FileEntry f) \<and> file_size f = 0)"
  shows "status (fst (POST g request)) = 400 \<and>
         (body (fst (POST g request)) = [(''error'', FStr invalid_upload_message)] \<or>
          body (fst (POST g request)) = [(''error'', FStr (lit ''Uploaded file is empty.''))]) \<and>
         snd (POST g request) = []"
proof -
  consider "POST = POST_freetext" | "POST = POST_structured" | "POST = POST_cors"
    | "POST = POST_context"
    using assms(1) by auto
  then show ?thesis
  proof cases
    case 1
    with assms(2,3) show ?thesis by (auto simp: POST_freetext_def)
  next
    case 2
    with assms(2,3) show ?thesis by (auto simp: POST_structured_def)
  next
    case 3
    with assms(2,3) show ?thesis by (auto simp: POST_cors_def)
  next
    case 4
    with assms(2,3) show ?thesis by (auto simp: POST_context_def)
  qed
qed

text \<open>A form whose \<^verbatim>\<open>file\<close> is a text.\<close>

theorem missing_upload_gives_400_witness:
  "POST_cors \<in> {POST_freetext, POST_structured, POST_cors, POST_context} \<and>
   formData text_upload_request = Inr [(lit ''file'', StringEntry (lit ''shoe.jpg''))] \<and>
   formData_get [(lit ''file'', StringEntry (lit ''shoe.jpg''))] (lit ''file'') =
     Some (StringEntry (lit ''shoe.jpg'')) \<and>
   status (fst (POST_cors (replying (text_reply valid_text)) text_upload_request)) = 400 \<and>
   body (fst (POST_cors (replying (text_reply valid_text)) text_upload_request)) =
     [(''error'', FStr invalid_upload_message)] \<and>
   snd (POST_cors (replying (text_reply valid_text)) text_upload_request) = []"
proof -
  let ?fd = "[(lit ''file'', StringEntry (lit ''shoe.jpg''))]"
  have m: "POST_cors \<in> {POST_freetext, POST_structured, POST_cors, POST_context}" by simp
  have a: "formData text_upload_request = Inr ?fd" by (simp add: text_upload_request_def)
  have b: "formData_get ?fd (lit ''file'') = Some (StringEntry (lit ''shoe.jpg''))"
    by (simp add: formData_get_def)
  have d: "formData_get ?fd (lit ''file'') = None \<or>
         (\<exists>s. formData_get ?fd (lit ''file'') = Some (StringEntry s)) \<or>
         (\<exists>f. formData_get ?fd (lit ''file'') = Some (FileEntry f) \<and> file_size f = 0)"
    using b by simp
  have e: "body (fst (POST_cors (replying (text_reply valid_text)) text_upload_request)) =
     [(''error'', FStr invalid_upload_message)]"
    by (simp add: POST_cors_def a b)
  from missing_upload_gives_400[OF m a d, of "replying (text_reply valid_text)"] m a b e
  show ?thesis by simp
qed

subsection \<open>C10: an empty label\<close>

text \<open>
  C10: when the cleaned text of the reply parses and its \<^verbatim>\<open>shoe_type\<close> is the empty
  string, a structured handler answers 500 with the text of the reply as
  \<^verbatim>\<open>gemini_raw_output\<close>, and so not 200 with an empty label.
\<close>

theorem empty_label_rejected:
  assumes "POST \<in> {POST_structured, POST_cors, POST_context}"
    and "Call p \<in> set (snd (POST g request))" and "g p = Inr response"
    and "generatedText response = Some t"
    and "JSON_parse (cleanedText t) = Some v"
    and "read_property v (lit ''shoe_type'') = Some (JString [])"
  shows "status (fst (POST g request)) = 500 \<and>
         map_of (body (fst (POST g request))) ''gemini_raw_output'' = Some (FStr t)"
proof -
  have "analysisObject t = None"
    using assms(5,6) by (simp add: analysisObject_def)
  from analysis_failure_response[OF assms(1-4) parsed_text_nonempty[OF assms(5)] this]
  show ?thesis .
qed

text \<open>The label \<^verbatim>\<open>""\<close>.\<close>

theorem empty_label_rejected_witness:
  "POST_cors \<in> {POST_structured, POST_cors, POST_context} \<and>
   Call sample_params \<in> set (snd (POST_cors (replying (text_reply empty_label_text)) sample_request)) \<and>
   replying (text_reply empty_label_text) sample_params = Inr (text_reply empty_label_text) \<and>
   generatedText (text_reply empty_label_text) = Some empty_label_text \<and>
   JSON_parse (cleanedText empty_label_text) =
     Some (JObject [(lit ''shoe_type'', JString []), (lit ''recommended_time_minutes'', JNumber (Finite 40))]) \<and>
   read_property (JObject [(lit ''shoe_type'', JString []), (lit ''recommended_time_minutes'', JNumber (Finite 40))])
     (lit ''shoe_type'') = Some (JString []) \<and>
   status (fst (POST_cors (replying (text_reply empty_label_text)) sample_request)) = 500 \<and>
   map_of (body (fst (POST_cors (replying (text_reply empty_label_text)) sample_request)))
     ''gemini_raw_output'' = Some (FStr empty_label_text)"
proof -
  have m: "POST_cors \<in> {POST_structured, POST_cors, POST_context}" by simp
  have c: "Call sample_params \<in> set (snd (POST_cors (replying (text_reply empty_label_text)) sample_request))"
    by (simp add: POST_cors_sample)
  have r: "replying (text_reply empty_label_text) sample_params = Inr (text_reply empty_label_text)"
    by (simp add: replying_def)
  have j: "JSON_parse (cleanedText empty_label_text) =
     Some (JObject [(lit ''shoe_type'', JString []), (lit ''recommended_time_minutes'', JNumber (Finite 40))])"
    by (simp add: empty_label_text_def lit_def clean_eval json_eval)
  have q: "read_property (JObject [(lit ''shoe_type'', JString []), (lit ''recommended_time_minutes'', JNumber (Finite 40))])
     (lit ''shoe_type'') = Some (JString [])"
    by (simp add: lit_def)
  from empty_label_rejected[OF m c r generatedText_text_reply j q] m c r j q
  show ?thesis by simp
qed

section \<open>Further scenarios of the specification\<close>

text \<open>
  The first scenario of the specification: a JPEG is uploaded and the provider returns
  exactly the example object. The answer is 200 with the label, the 40 minutes, and the
  name and size of the upload; the provider was called once.
\<close>

theorem scenario_valid_reply:
  "POST_cors (replying (text_reply valid_text)) sample_request =
     (NextResponse_json
        [(''filename'', FStr (lit ''shoe.jpg'')),
         (''filesize'', FNum (Finite 3)),
         (''shoe_type'', FJson (Some (JString (lit ''Sneaker, medium thickness'')))),
         (''recommended_time_minutes'', FJson (Some (JNumber (Finite 40)))),
         (''model_used'', FStr (lit ''gemini-2.5-flash''))]
        200 corsHeaders,
      [Call sample_params])"
proof -
  have n: "valid_text \<noteq> []" by (simp add: valid_text_def lit_def)
  show ?thesis
    by (simp add: POST_cors_sample respond_cors_def n analysis_valid_text sample_file_def)
       (simp add: lit_def)
qed

text \<open>
  The context-aware scenario: with \<^verbatim>\<open>temperature=35\<close> and \<^verbatim>\<open>humidity=80\<close> the answer
  carries both numbers beside the parsed fields, and the prompt was built from them.
\<close>

theorem scenario_context_reply:
  "POST_context (replying (text_reply valid_text)) context_request =
     (NextResponse_json
        [(''filename'', FStr (lit ''shoe.jpg'')),
         (''filesize'', FNum (Finite 3)),
         (''shoe_type'', FJson (Some (JString (lit ''Sneaker, medium thickness'')))),
         (''recommended_time_minutes'', FJson (Some (JNumber (Finite 40)))),
         (''temperature'', FNum (Finite 35)),
         (''humidity'', FNum (Finite 80)),
         (''model_used'', FStr (lit ''gemini-2.5-flash''))]
        200 corsHeaders,
      [Call \<lparr>model = lit ''gemini-2.5-flash'', prompt = buildPrompt (Finite 35) (Finite 80),
              inlineData = \<lparr>data = [255, 216, 255], mimeType = lit ''image/jpeg''\<rparr>\<rparr>])"
proof -
  have n: "valid_text \<noteq> []" by (simp add: valid_text_def lit_def)
  have t: "StringToNumber (lit ''35'') = Finite 35" by (simp add: lit_def number_eval)
  have h: "StringToNumber (lit ''80'') = Finite 80" by (simp add: lit_def number_eval)
  have g: "formData_get [(lit ''file'', FileEntry sample_file),
                      (lit ''temperature'', StringEntry (lit ''35'')),
                      (lit ''humidity'', StringEntry (lit ''80''))] (lit ''humidity'') =
             Some (StringEntry (lit ''80''))"
          "formData_get [(lit ''file'', FileEntry sample_file),
                      (lit ''temperature'', StringEntry (lit ''35'')),
                      (lit ''humidity'', StringEntry (lit ''80''))] (lit ''temperature'') =
             Some (StringEntry (lit ''35''))"
          "formData_get [(lit ''file'', FileEntry sample_file),
                      (lit ''temperature'', StringEntry (lit ''35'')),
                      (lit ''humidity'', StringEntry (lit ''80''))] (lit ''file'') =
             Some (FileEntry sample_file)"
    by (simp_all add: formData_get_def lit_def)
  have e: "lit ''80'' \<noteq> []" "lit ''35'' \<noteq> []" by (simp_all add: lit_def)
  show ?thesis
    by (simp add: POST_context_def context_request_def g e t h isNaN_def
          fileToGenerativePart_def replying_def respond_context_def n analysis_valid_text
          case_prod_beta sample_file_fields)
       (simp add: lit_def)
qed

text \<open>
  A reply with no text and no block reason: each handler answers 500 and attaches the
  whole reply as \<^verbatim>\<open>full_response_debug\<close>.
\<close>

theorem no_text_no_reason_gives_500:
  assumes "POST \<in> {POST_freetext, POST_structured, POST_cors, POST_context}"
    and "Call p \<in> set (snd (POST g request))" and "g p = Inr response"
    and "generatedText response = None \<or> generatedText response = Some []"
    and "promptFeedback response = None \<or>
         (\<exists>feedback. promptFeedback response = Some feedback \<and>
            (blockReason feedback = None \<or> blockReason feedback = Some []))"
  shows "status (fst (POST g request)) = 500 \<and>
         map_of (body (fst (POST g request))) ''full_response_debug'' = Some (FResponse response)"
proof -
  have b: "blocked response = None"
    using assms(5) by (auto simp: blocked_def)
  have r: "status (fst (respond_freetext f response)) = 500 \<and>
         map_of (body (fst (respond_freetext f response))) ''full_response_debug'' = Some (FResponse response)"
    "status (fst (respond_structured f response)) = 500 \<and>
         map_of (body (fst (respond_structured f response))) ''full_response_debug'' = Some (FResponse response)"
    "status (fst (respond_cors f response)) = 500 \<and>
         map_of (body (fst (respond_cors f response))) ''full_response_debug'' = Some (FResponse response)"
    "status (fst (respond_context f t h response)) = 500 \<and>
         map_of (body (fst (respond_context f t h response))) ''full_response_debug'' = Some (FResponse response)"
    for f t h
    using assms(4) b by (auto simp: respond_defs)
  consider "POST = POST_freetext" | "POST = POST_structured" | "POST = POST_cors"
    | "POST = POST_context"
    using assms(1) by auto
  then show ?thesis
  proof cases
    case 1
    with POST_freetext_reply[of p g request response] assms(2,3) r(1) show ?thesis by auto
  next
    case 2
    with POST_structured_reply[of p g request response] assms(2,3) r(2) show ?thesis by auto
  next
    case 3
    with POST_cors_reply[of p g request response] assms(2,3) r(3) show ?thesis by auto
  next
    case 4
    with POST_context_reply[of p g request response] assms(2,3) r(4) show ?thesis by auto
  qed
qed

text \<open>A reply with an empty list of candidates.\<close>

theorem no_text_no_reason_gives_500_witness:
  "POST_cors \<in> {POST_freetext, POST_structured, POST_cors, POST_context} \<and>
   Call sample_params \<in> set (snd (POST_cors (replying silent_reply) sample_request)) \<and>
   replying silent_reply sample_params = Inr silent_reply \<and>
   generatedText silent_reply = None \<and> promptFeedback silent_reply = None \<and>
   status (fst (POST_cors (replying silent_reply) sample_request)) = 500 \<and>
   map_of (body (fst (POST_cors (replying silent_reply) sample_request))) ''full_response_debug'' =
     Some (FResponse silent_reply)"
proof -
  have m: "POST_cors \<in> {POST_freetext, POST_structured, POST_cors, POST_context}" by simp
  have c: "Call sample_params \<in> set (snd (POST_cors (replying silent_reply) sample_request))"
    by (simp add: POST_cors_sample)
  have r: "replying silent_reply sample_params = Inr silent_reply" by (simp add: replying_def)
  have t: "generatedText silent_reply = None"
    by (simp add: generatedText_def first_candidate_def silent_reply_def)
  have f: "promptFeedback silent_reply = None" by (simp add: silent_reply_def)
  have t': "generatedText silent_reply = None \<or> generatedText silent_reply = Some []"
    using t by simp
  have f': "promptFeedback silent_reply = None \<or>
         (\<exists>feedback. promptFeedback silent_reply = Some feedback \<and>
            (blockReason feedback = None \<or> blockReason feedback = Some []))"
    using f by simp
  from no_text_no_reason_gives_500[OF m c r t' f'] m c r t f show ?thesis by simp
qed

text \<open>
  A call of the provider that fails is caught at the outermost \<^verbatim>\<open>catch\<close>: the answer is
  500, and \<^verbatim>\<open>details\<close> is the message of the error, or the handler's fallback text when
  what was thrown is not an \<^verbatim>\<open>Error\<close>.
\<close>

theorem provider_failure_gives_500:
  assumes "(POST, fallback) \<in>
             {(POST_freetext, lit ''An unknown error occurred.''),
              (POST_structured, lit ''An unknown error occurred.''),
              (POST_cors, lit ''An unknown error occurred.''),
              (POST_context, lit ''Unknown error.'')}"
    and "Call p \<in> set (snd (POST g request))" and "g p = Inl e"
  shows "status (fst (POST g request)) = 500 \<and>
         map_of (body (fst (POST g request))) ''details'' =
           Some (FStr (case e of ErrorObject message \<Rightarrow> message | NonError \<Rightarrow> fallback))"
proof -
  consider "POST = POST_freetext" "fallback = lit ''An unknown error occurred.''"
    | "POST = POST_structured" "fallback = lit ''An unknown error occurred.''"
    | "POST = POST_cors" "fallback = lit ''An unknown error occurred.''"
    | "POST = POST_context" "fallback = lit ''Unknown error.''"
    using assms(1) by auto
  then show ?thesis
  proof cases
    case 1
    with assms(2,3) show ?thesis
      by (auto simp: POST_defs Let_def respond_no_call case_prod_beta
           split: sum.splits option.splits FormDataEntryValue.splits if_splits)
  next
    case 2
    with assms(2,3) show ?thesis
      by (auto simp: POST_defs Let_def respond_no_call case_prod_beta
           split: sum.splits option.splits FormDataEntryValue.splits if_splits)
  next
    case 3
    with assms(2,3) show ?thesis
      by (auto simp: POST_defs Let_def respond_no_call case_prod_beta
           split: sum.splits option.splits FormDataEntryValue.splits if_splits)
  next
    case 4
    with assms(2,3) show ?thesis
      by (auto simp: POST_defs Let_def respond_no_call case_prod_beta
           split: sum.splits option.splits FormDataEntryValue.splits if_splits)
  qed
qed

text \<open>A transport error.\<close>

theorem provider_failure_gives_500_witness:
  "Call sample_params \<in>
     set (snd (POST_cors (failing (ErrorObject (lit ''fetch failed''))) sample_request)) \<and>
   failing (ErrorObject (lit ''fetch failed'')) sample_params = Inl (ErrorObject (lit ''fetch failed'')) \<and>
   status (fst (POST_cors (failing (ErrorObject (lit ''fetch failed''))) sample_request)) = 500 \<and>
   map_of (body (fst (POST_cors (failing (ErrorObject (lit ''fetch failed''))) sample_request)))
     ''details'' = Some (FStr (lit ''fetch failed''))"
proof -
  have m: "(POST_cors, lit ''An unknown error occurred.'') \<in>
             {(POST_freetext, lit ''An unknown error occurred.''),
              (POST_structured, lit ''An unknown error occurred.''),
              (POST_cors, lit ''An unknown error occurred.''),
              (POST_context, lit ''Unknown error.'')}"
    by simp
  have c: "Call sample_params \<in>
     set (snd (POST_cors (failing (ErrorObject (lit ''fetch failed''))) sample_request))"
    by (simp add: POST_cors_def sample_request_def formData_get_def sample_file_fields
        fileToGenerativePart_def failing_def sample_params_def catch_cors_def)
  have r: "failing (ErrorObject (lit ''fetch failed'')) sample_params =
           Inl (ErrorObject (lit ''fetch failed''))"
    by (simp add: failing_def)
  from provider_failure_gives_500[OF m c r] c r show ?thesis by simp
qed

end
